theory Spec2Isabelle
  imports Main "HOL-Library.Word"
begin

section \<open>JavaScript strings\<close>

text \<open>
  A JavaScript string is a sequence of 16-bit UTF-16 code units; \<open>length\<close> counts code
  units and a regular expression without the \<open>u\<close> flag matches code unit by code unit.
  String literals of the source are ASCII and are written \<open>js ''...''\<close>.
\<close>

type_synonym code_unit = "16 word"
type_synonym jsstring = "code_unit list"

definition cu :: "char \<Rightarrow> code_unit" where
  "cu c = of_char c"

definition js :: "string \<Rightarrow> jsstring" where
  "js s = map cu s"

text \<open>
  The code units that ECMAScript counts as white space or as a line terminator. They are
  what \<open>String.prototype.trim\<close> strips and what the class escape \<open>\s\<close> matches:
  TAB, LF, VT, FF, CR, SP, NBSP, U+1680, U+2000 to U+200A, U+2028, U+2029, U+202F,
  U+205F, U+3000 and U+FEFF.
\<close>

definition is_space :: "code_unit \<Rightarrow> bool" where
  "is_space c \<longleftrightarrow>
     c = 0x09 \<or> c = 0x0A \<or> c = 0x0B \<or> c = 0x0C \<or> c = 0x0D \<or> c = 0x20 \<or> c = 0xA0 \<or>
     c = 0x1680 \<or> (0x2000 \<le> c \<and> c \<le> 0x200A) \<or> c = 0x2028 \<or> c = 0x2029 \<or>
     c = 0x202F \<or> c = 0x205F \<or> c = 0x3000 \<or> c = 0xFEFF"

text \<open>The class escape \<open>\d\<close>: the ten ASCII digits.\<close>

definition is_digit :: "code_unit \<Rightarrow> bool" where
  "is_digit c \<longleftrightarrow> cu CHR ''0'' \<le> c \<and> c \<le> cu CHR ''9''"

definition trim :: "jsstring \<Rightarrow> jsstring" where
  "trim s = rev (dropWhile is_space (rev (dropWhile is_space s)))"

text \<open>A string is falsy exactly when it is empty: \<open>!s\<close>.\<close>

definition falsy :: "jsstring \<Rightarrow> bool" where
  "falsy s \<longleftrightarrow> s = []"

section \<open>The regular expressions of the source\<close>

text \<open>
  The source uses character classes, literal characters, the quantifier \<open>+\<close> applied to a
  class, and the anchors \<open>^\<close> and \<open>$\<close> (no \<open>m\<close> flag, so they are the ends of the input).
\<close>

datatype cls_item =
    Chr code_unit
  | Range code_unit code_unit
  | Esc_s
  | Esc_d

datatype atom =
    Lit code_unit
  | Cls "cls_item list"
  | NCls "cls_item list"

datatype piece = Once atom | Many atom

datatype regex = Regex (bol: bool) (body: "piece list") (eol: bool)

fun item_ok :: "cls_item \<Rightarrow> code_unit \<Rightarrow> bool" where
  "item_ok (Chr d) c = (c = d)"
| "item_ok (Range lo hi) c = (lo \<le> c \<and> c \<le> hi)"
| "item_ok Esc_s c = is_space c"
| "item_ok Esc_d c = is_digit c"

fun atom_ok :: "atom \<Rightarrow> code_unit \<Rightarrow> bool" where
  "atom_ok (Lit d) c = (c = d)"
| "atom_ok (Cls is) c = list_ex (\<lambda>i. item_ok i c) is"
| "atom_ok (NCls is) c = (\<not> list_ex (\<lambda>i. item_ok i c) is)"

text \<open>
  A backtracking matcher: \<open>match_here ps e s\<close> tries to match the pieces \<open>ps\<close> at the
  start of \<open>s\<close>; \<open>e\<close> says whether the match must end at the end of the input. A
  quantified class is greedy: it first tries to take one more code unit and falls back
  to the rest of the pattern.
\<close>

fun match_here :: "piece list \<Rightarrow> bool \<Rightarrow> jsstring \<Rightarrow> bool" where
  "match_here [] e s = (if e then s = [] else True)"
| "match_here (Once a # ps) e [] = False"
| "match_here (Once a # ps) e (c # cs) = (atom_ok a c \<and> match_here ps e cs)"
| "match_here (Many a # ps) e [] = False"
| "match_here (Many a # ps) e (c # cs) =
     (atom_ok a c \<and> (match_here (Many a # ps) e cs \<or> match_here ps e cs))"

text \<open>Without \<open>^\<close> the match may start at any index of the input, the end included.\<close>

fun match_anywhere :: "piece list \<Rightarrow> bool \<Rightarrow> jsstring \<Rightarrow> bool" where
  "match_anywhere ps e [] = match_here ps e []"
| "match_anywhere ps e (c # cs) = (match_here ps e (c # cs) \<or> match_anywhere ps e cs)"

text \<open>\<open>RegExp.prototype.test\<close> for a regular expression without flags.\<close>

definition test :: "regex \<Rightarrow> jsstring \<Rightarrow> bool" where
  "test r s = (if bol r then match_here (body r) (eol r) s
               else match_anywhere (body r) (eol r) s)"

text \<open>
  \<open>s.replace(/a/g, "")\<close> for a pattern of one atom: every code unit that the atom matches
  is removed.
\<close>

definition replace_all_empty :: "atom \<Rightarrow> jsstring \<Rightarrow> jsstring" where
  "replace_all_empty a s = filter (\<lambda>c. \<not> atom_ok a c) s"

text \<open>The regular expression literals of the source.\<close>

definition re_name :: regex where
  \<comment> \<open>\<^verbatim>\<open>/^[a-zA-Z\s]+$/\<close>\<close>
  "re_name = Regex True
     [Many (Cls [Range (cu CHR ''a'') (cu CHR ''z''), Range (cu CHR ''A'') (cu CHR ''Z''), Esc_s])]
     True"

definition emailRegex :: regex where
  \<comment> \<open>\<^verbatim>\<open>/^[^\s@]+@[^\s@]+\.[^\s@]+$/\<close>\<close>
  "emailRegex = Regex True
     [Many (NCls [Esc_s, Chr (cu CHR ''@'')]), Once (Lit (cu CHR ''@'')),
      Many (NCls [Esc_s, Chr (cu CHR ''@'')]), Once (Lit (cu CHR ''.'')),
      Many (NCls [Esc_s, Chr (cu CHR ''@'')])]
     True"

definition phoneRegex :: regex where
  \<comment> \<open>\<^verbatim>\<open>/^[\d\s\-\+\(\)]+$/\<close>\<close>
  "phoneRegex = Regex True
     [Many (Cls [Esc_d, Esc_s, Chr (cu CHR ''-''), Chr (cu CHR ''+''),
                 Chr (cu CHR ''(''), Chr (cu CHR '')'')])]
     True"

definition re_nondigit :: atom where
  \<comment> \<open>\<^verbatim>\<open>\D\<close>, the complement of \<^verbatim>\<open>\d\<close>\<close>
  "re_nondigit = NCls [Esc_d]"

definition re_upper :: regex where
  \<comment> \<open>\<^verbatim>\<open>/[A-Z]/\<close>\<close>
  "re_upper = Regex False [Once (Cls [Range (cu CHR ''A'') (cu CHR ''Z'')])] False"

definition re_lower :: regex where
  \<comment> \<open>\<^verbatim>\<open>/[a-z]/\<close>\<close>
  "re_lower = Regex False [Once (Cls [Range (cu CHR ''a'') (cu CHR ''z'')])] False"

definition re_number :: regex where
  \<comment> \<open>\<^verbatim>\<open>/[0-9]/\<close>\<close>
  "re_number = Regex False [Once (Cls [Range (cu CHR ''0'') (cu CHR ''9'')])] False"

definition re_symbol :: regex where
  \<comment> \<open>\<^verbatim>\<open>/[!@#$%^&*]/\<close>\<close>
  "re_symbol = Regex False
     [Once (Cls [Chr (cu CHR ''!''), Chr (cu CHR ''@''), Chr (cu CHR ''#''), Chr (cu CHR ''$''),
                 Chr (cu CHR ''%''), Chr (cu CHR ''^''), Chr (cu CHR ''&''), Chr (cu CHR ''*'')])]
     False"

section \<open>InteractiveForm: the single-page form\<close>

subsection \<open>Validators\<close>

text \<open>
  A validator returns \<open>string | undefined\<close>: \<open>None\<close> is \<open>undefined\<close> (the value is valid),
  \<open>Some m\<close> is the error message \<open>m\<close>.
\<close>

definition validateName :: "jsstring \<Rightarrow> jsstring option" where
  "validateName name =
     (if falsy (trim name) then Some (js ''Name is required'')
      else if length (trim name) < 2 then Some (js ''Name must be at least 2 characters'')
      else if \<not> test re_name name then Some (js ''Name can only contain letters and spaces'')
      else None)"

definition validateEmail :: "jsstring \<Rightarrow> jsstring option" where
  "validateEmail email =
     (if falsy (trim email) then Some (js ''Email is required'')
      else if \<not> test emailRegex email then Some (js ''Please enter a valid email address'')
      else None)"

definition validatePhone :: "jsstring \<Rightarrow> jsstring option" where
  "validatePhone phone =
     (if falsy (trim phone) then Some (js ''Phone number is required'')
      else if \<not> test phoneRegex phone then Some (js ''Please enter a valid phone number'')
      else if length (replace_all_empty re_nondigit phone) < 10
        then Some (js ''Phone number must be at least 10 digits'')
      else None)"

definition validatePassword :: "jsstring \<Rightarrow> jsstring option" where
  "validatePassword password =
     (if falsy password then Some (js ''Password is required'')
      else if length password < 8 then Some (js ''Password must be at least 8 characters'')
      else if \<not> test re_upper password
        then Some (js ''Password must contain an uppercase letter'')
      else if \<not> test re_lower password
        then Some (js ''Password must contain a lowercase letter'')
      else if \<not> test re_number password then Some (js ''Password must contain a number'')
      else if \<not> test re_symbol password
        then Some (js ''Password must contain a special character (!@#$%^&*)'')
      else None)"

text \<open>
  The strength is accumulated in a local variable, one conditional addition after the
  other; every condition is evaluated.
\<close>

definition calculatePasswordStrength :: "jsstring \<Rightarrow> int" where
  "calculatePasswordStrength password =
     (let strength = 0;
          strength = (if length password \<ge> 8 then strength + 20 else strength);
          strength = (if length password \<ge> 12 then strength + 20 else strength);
          strength = (if test re_upper password then strength + 20 else strength);
          strength = (if test re_lower password then strength + 20 else strength);
          strength = (if test re_number password then strength + 10 else strength);
          strength = (if test re_symbol password then strength + 10 else strength)
      in strength)"

subsection \<open>Component state\<close>

record FormData =
  f_name :: jsstring
  f_email :: jsstring
  f_phone :: jsstring
  f_password :: jsstring

text \<open>An optional field of \<open>FormErrors\<close> is \<open>None\<close> when it is absent or \<open>undefined\<close>.\<close>

record FormErrors =
  name_error :: "jsstring option"
  email_error :: "jsstring option"
  phone_error :: "jsstring option"
  password_error :: "jsstring option"

record TouchedFields =
  name_touched :: bool
  email_touched :: bool
  phone_touched :: bool
  password_touched :: bool

text \<open>A call of the external \<open>toast\<close> hook is recorded; it does not touch the component.\<close>

datatype toast = Toast (title: jsstring) (description: jsstring) (destructive: bool)

record form_state =
  formData :: FormData
  errors :: FormErrors
  touched :: TouchedFields
  showPassword :: bool
  isSubmitted :: bool
  passwordStrength :: int
  toasts :: "toast list"

datatype field = Name | Email | Phone | Password

definition no_errors :: FormErrors where
  "no_errors = \<lparr>name_error = None, email_error = None, phone_error = None,
                 password_error = None\<rparr>"

definition initial_form :: form_state where
  "initial_form =
     \<lparr>formData = \<lparr>f_name = [], f_email = [], f_phone = [], f_password = []\<rparr>,
      errors = no_errors,
      touched = \<lparr>name_touched = False, email_touched = False, phone_touched = False,
                 password_touched = False\<rparr>,
      showPassword = False, isSubmitted = False, passwordStrength = 0, toasts = []\<rparr>"

text \<open>\<open>if (e) newErrors.f = e\<close>: the message is stored when it is truthy.\<close>

definition stored_if_truthy :: "jsstring option \<Rightarrow> jsstring option" where
  "stored_if_truthy e = (case e of None \<Rightarrow> None | Some m \<Rightarrow> if falsy m then None else Some m)"

text \<open>The effect on \<open>[formData, touched]\<close>: real-time validation of the touched fields.\<close>

definition validation_effect :: "form_state \<Rightarrow> form_state" where
  "validation_effect s =
     s\<lparr>errors :=
        \<lparr>name_error = (if name_touched (touched s)
                         then stored_if_truthy (validateName (f_name (formData s))) else None),
         email_error = (if email_touched (touched s)
                         then stored_if_truthy (validateEmail (f_email (formData s))) else None),
         phone_error = (if phone_touched (touched s)
                         then stored_if_truthy (validatePhone (f_phone (formData s))) else None),
         password_error = (if password_touched (touched s)
                         then stored_if_truthy (validatePassword (f_password (formData s)))
                         else None)\<rparr>\<rparr>"

text \<open>The effect on \<open>[formData.password]\<close>.\<close>

definition strength_effect :: "form_state \<Rightarrow> form_state" where
  "strength_effect s =
     s\<lparr>passwordStrength := calculatePasswordStrength (f_password (formData s))\<rparr>"

definition handleInputChange :: "field \<Rightarrow> jsstring \<Rightarrow> form_state \<Rightarrow> form_state" where
  "handleInputChange f v s =
     s\<lparr>formData :=
        (case f of
           Name \<Rightarrow> (formData s)\<lparr>f_name := v\<rparr>
         | Email \<Rightarrow> (formData s)\<lparr>f_email := v\<rparr>
         | Phone \<Rightarrow> (formData s)\<lparr>f_phone := v\<rparr>
         | Password \<Rightarrow> (formData s)\<lparr>f_password := v\<rparr>)\<rparr>"

definition handleBlur :: "field \<Rightarrow> form_state \<Rightarrow> form_state" where
  "handleBlur f s =
     s\<lparr>touched :=
        (case f of
           Name \<Rightarrow> (touched s)\<lparr>name_touched := True\<rparr>
         | Email \<Rightarrow> (touched s)\<lparr>email_touched := True\<rparr>
         | Phone \<Rightarrow> (touched s)\<lparr>phone_touched := True\<rparr>
         | Password \<Rightarrow> (touched s)\<lparr>password_touched := True\<rparr>)\<rparr>"

definition Object_values :: "FormErrors \<Rightarrow> jsstring option list" where
  "Object_values e = [name_error e, email_error e, phone_error e, password_error e]"

definition handleSubmit :: "form_state \<Rightarrow> form_state" where
  "handleSubmit s =
     (let s1 = s\<lparr>touched := \<lparr>name_touched = True, email_touched = True,
                               phone_touched = True, password_touched = True\<rparr>\<rparr>;
          newErrors = \<lparr>name_error = validateName (f_name (formData s)),
                       email_error = validateEmail (f_email (formData s)),
                       phone_error = validatePhone (f_phone (formData s)),
                       password_error = validatePassword (f_password (formData s))\<rparr>;
          s2 = s1\<lparr>errors := newErrors\<rparr>;
          hasErrors = list_ex (\<lambda>error. error \<noteq> None) (Object_values newErrors)
      in if \<not> hasErrors
         then s2\<lparr>isSubmitted := True,
                 toasts := toasts s2 @
                   [Toast (js ''Success!'')
                      (js ''Your form has been submitted successfully.'') False]\<rparr>
         else s2\<lparr>toasts := toasts s2 @
                   [Toast (js ''Validation Error'')
                      (js ''Please fix the errors in the form.'') True]\<rparr>)"

text \<open>The button of the success screen.\<close>

definition submitAnother :: "form_state \<Rightarrow> form_state" where
  "submitAnother s =
     s\<lparr>isSubmitted := False,
       formData := \<lparr>f_name = [], f_email = [], f_phone = [], f_password = []\<rparr>,
       touched := \<lparr>name_touched = False, email_touched = False, phone_touched = False,
                   password_touched = False\<rparr>,
       errors := no_errors\<rparr>"

text \<open>
  After a handler the component renders again and runs the effects whose dependencies
  changed: the validation effect whenever the handler stored a new \<open>formData\<close> or
  \<open>touched\<close> object, the strength effect when the password string differs.
\<close>

definition rerender :: "bool \<Rightarrow> form_state \<Rightarrow> form_state \<Rightarrow> form_state" where
  "rerender replaced old new =
     (let s1 = (if replaced then validation_effect new else new)
      in if f_password (formData new) \<noteq> f_password (formData old) then strength_effect s1 else s1)"

datatype form_event =
    InputChange field jsstring
  | Blur field
  | Submit
  | ToggleShowPassword
  | SubmitAnother

text \<open>The form is rendered until it is submitted, the success screen afterwards.\<close>

fun form_enabled :: "form_state \<Rightarrow> form_event \<Rightarrow> bool" where
  "form_enabled s SubmitAnother = isSubmitted s"
| "form_enabled s _ = (\<not> isSubmitted s)"

fun form_handler :: "form_event \<Rightarrow> form_state \<Rightarrow> form_state" where
  "form_handler (InputChange f v) s = rerender True s (handleInputChange f v s)"
| "form_handler (Blur f) s = rerender True s (handleBlur f s)"
| "form_handler Submit s = rerender True s (handleSubmit s)"
| "form_handler ToggleShowPassword s = s\<lparr>showPassword := \<not> showPassword s\<rparr>"
| "form_handler SubmitAnother s = rerender True s (submitAnother s)"

definition form_fire :: "form_state \<Rightarrow> form_event \<Rightarrow> form_state" where
  "form_fire s ev = (if form_enabled s ev then form_handler ev s else s)"

text \<open>The label and the colour of the strength display, read from the stored strength.\<close>

definition getPasswordStrengthColor :: "int \<Rightarrow> jsstring" where
  "getPasswordStrengthColor strength =
     (if strength < 40 then js ''bg-destructive''
      else if strength < 70 then js ''bg-yellow-500''
      else js ''bg-success'')"

definition getPasswordStrengthLabel :: "int \<Rightarrow> jsstring" where
  "getPasswordStrengthLabel strength =
     (if strength < 40 then js ''Weak''
      else if strength < 70 then js ''Medium''
      else js ''Strong'')"

section \<open>MultiStepForm: the three-step wizard\<close>

subsection \<open>Validators\<close>

definition wizard_validateEmail :: "jsstring \<Rightarrow> jsstring option" where
  "wizard_validateEmail email =
     (if falsy (trim email) then Some (js ''Email is required'')
      else if \<not> test emailRegex email then Some (js ''Please enter a valid email address'')
      else None)"

definition validateOTP :: "jsstring \<Rightarrow> jsstring option" where
  "validateOTP otp =
     (if falsy otp then Some (js ''Verification code is required'')
      else if length otp \<noteq> 5 then Some (js ''Code must be 5 digits'')
      else None)"

definition wizard_validatePassword :: "jsstring \<Rightarrow> jsstring option" where
  "wizard_validatePassword password =
     (if falsy password then Some (js ''Password is required'')
      else if length password < 8 then Some (js ''Password must be at least 8 characters'')
      else if \<not> test re_number password then Some (js ''Password must contain a number'')
      else if \<not> test re_symbol password then Some (js ''Password must contain a symbol'')
      else None)"

subsection \<open>Component state\<close>

record wizard_FormData =
  w_email :: jsstring
  w_otp :: jsstring
  w_password :: jsstring

record wizard_FormErrors =
  email_err :: "jsstring option"
  otp_err :: "jsstring option"
  password_err :: "jsstring option"

record requirements =
  minLength :: bool
  hasNumber :: bool
  hasSymbol :: bool

record wizard_state =
  step :: int
  w_formData :: wizard_FormData
  w_errors :: wizard_FormErrors
  w_showPassword :: bool
  w_isSubmitted :: bool
  w_passwordStrength :: int
  passwordRequirements :: requirements
  w_toasts :: "toast list"

definition no_wizard_errors :: wizard_FormErrors where
  "no_wizard_errors = \<lparr>email_err = None, otp_err = None, password_err = None\<rparr>"

definition initial_wizard :: wizard_state where
  "initial_wizard =
     \<lparr>step = 1,
      w_formData = \<lparr>w_email = [], w_otp = [], w_password = []\<rparr>,
      w_errors = no_wizard_errors,
      w_showPassword = False, w_isSubmitted = False, w_passwordStrength = 0,
      passwordRequirements = \<lparr>minLength = False, hasNumber = False, hasSymbol = False\<rparr>,
      w_toasts = []\<rparr>"

text \<open>
  The wizard's \<open>calculatePasswordStrength\<close> returns nothing: it stores the three
  requirement flags and the strength in the component.
\<close>

definition wizard_calculatePasswordStrength :: "jsstring \<Rightarrow> wizard_state \<Rightarrow> wizard_state" where
  "wizard_calculatePasswordStrength password s =
     (let reqs = \<lparr>minLength = (length password \<ge> 8),
                  hasNumber = test re_number password,
                  hasSymbol = test re_symbol password\<rparr>;
          s1 = s\<lparr>passwordRequirements := reqs\<rparr>;
          strength = 0;
          strength = (if minLength reqs then strength + 40 else strength);
          strength = (if hasNumber reqs then strength + 30 else strength);
          strength = (if hasSymbol reqs then strength + 30 else strength)
      in s1\<lparr>w_passwordStrength := strength\<rparr>)"

text \<open>The effect on \<open>[formData.password]\<close>: nothing is recomputed for the empty password.\<close>

definition wizard_strength_effect :: "wizard_state \<Rightarrow> wizard_state" where
  "wizard_strength_effect s =
     (if \<not> falsy (w_password (w_formData s))
      then wizard_calculatePasswordStrength (w_password (w_formData s)) s
      else s)"

definition handleEmailSubmit :: "wizard_state \<Rightarrow> wizard_state" where
  "handleEmailSubmit s =
     (case wizard_validateEmail (w_email (w_formData s)) of
        Some emailError \<Rightarrow>
          if \<not> falsy emailError
          then s\<lparr>w_errors := \<lparr>email_err = Some emailError, otp_err = None, password_err = None\<rparr>,
                 w_toasts := w_toasts s @ [Toast (js ''Validation Error'') emailError True]\<rparr>
          else s\<lparr>w_errors := no_wizard_errors, step := 2,
                 w_toasts := w_toasts s @
                   [Toast (js ''Code Sent!'')
                      (js ''We've sent a verification code to '' @ w_email (w_formData s)) False]\<rparr>
      | None \<Rightarrow>
          s\<lparr>w_errors := no_wizard_errors, step := 2,
            w_toasts := w_toasts s @
              [Toast (js ''Code Sent!'')
                 (js ''We've sent a verification code to '' @ w_email (w_formData s)) False]\<rparr>)"

definition handleOTPSubmit :: "wizard_state \<Rightarrow> wizard_state" where
  "handleOTPSubmit s =
     (case validateOTP (w_otp (w_formData s)) of
        Some otpError \<Rightarrow>
          if \<not> falsy otpError
          then s\<lparr>w_errors := \<lparr>email_err = None, otp_err = Some otpError, password_err = None\<rparr>,
                 w_toasts := w_toasts s @ [Toast (js ''Validation Error'') otpError True]\<rparr>
          else s\<lparr>w_errors := no_wizard_errors, step := 3\<rparr>
      | None \<Rightarrow> s\<lparr>w_errors := no_wizard_errors, step := 3\<rparr>)"

definition handlePasswordSubmit :: "wizard_state \<Rightarrow> wizard_state" where
  "handlePasswordSubmit s =
     (case wizard_validatePassword (w_password (w_formData s)) of
        Some passwordError \<Rightarrow>
          if \<not> falsy passwordError
          then s\<lparr>w_errors := \<lparr>email_err = None, otp_err = None,
                               password_err = Some passwordError\<rparr>,
                 w_toasts := w_toasts s @ [Toast (js ''Validation Error'') passwordError True]\<rparr>
          else s\<lparr>w_errors := no_wizard_errors, w_isSubmitted := True,
                 w_toasts := w_toasts s @
                   [Toast (js ''Success!'')
                      (js ''Your account has been created successfully.'') False]\<rparr>
      | None \<Rightarrow>
          s\<lparr>w_errors := no_wizard_errors, w_isSubmitted := True,
            w_toasts := w_toasts s @
              [Toast (js ''Success!'')
                 (js ''Your account has been created successfully.'') False]\<rparr>)"

definition handleBack :: "wizard_state \<Rightarrow> wizard_state" where
  "handleBack s = s\<lparr>w_errors := no_wizard_errors, step := step s - 1\<rparr>"

definition handleSocialLogin :: "jsstring \<Rightarrow> wizard_state \<Rightarrow> wizard_state" where
  "handleSocialLogin provider s =
     s\<lparr>w_toasts := w_toasts s @
        [Toast (provider @ js '' Login'')
           (provider @ js '' login would be integrated here.'') False]\<rparr>"

text \<open>The button of the success screen.\<close>

definition continue :: "wizard_state \<Rightarrow> wizard_state" where
  "continue s =
     s\<lparr>w_isSubmitted := False, step := 1,
       w_formData := \<lparr>w_email = [], w_otp = [], w_password = []\<rparr>,
       w_errors := no_wizard_errors\<rparr>"

text \<open>
  After a handler the component renders again; the strength effect runs when the
  password string differs from the one of the previous render.
\<close>

definition wizard_rerender :: "wizard_state \<Rightarrow> wizard_state \<Rightarrow> wizard_state" where
  "wizard_rerender old new =
     (if w_password (w_formData new) \<noteq> w_password (w_formData old)
      then wizard_strength_effect new else new)"

datatype wizard_event =
    EmailChange jsstring
  | OTPChange jsstring
  | PasswordChange jsstring
  | EmailSubmit
  | OTPSubmit
  | PasswordSubmit
  | Back
  | DifferentEmail
  | SocialLogin jsstring
  | TogglePassword
  | Continue

text \<open>
  What is rendered decides which events can occur: the success screen shows only its
  button; otherwise the back arrow is there from step 2 on and each step shows its own
  input and buttons.
\<close>

fun wizard_enabled :: "wizard_state \<Rightarrow> wizard_event \<Rightarrow> bool" where
  "wizard_enabled s Continue = w_isSubmitted s"
| "wizard_enabled s Back = (\<not> w_isSubmitted s \<and> step s > 1)"
| "wizard_enabled s (EmailChange v) = (\<not> w_isSubmitted s \<and> step s = 1)"
| "wizard_enabled s EmailSubmit = (\<not> w_isSubmitted s \<and> step s = 1)"
| "wizard_enabled s (SocialLogin p) = (\<not> w_isSubmitted s \<and> step s = 1)"
| "wizard_enabled s (OTPChange v) = (\<not> w_isSubmitted s \<and> step s = 2)"
| "wizard_enabled s OTPSubmit = (\<not> w_isSubmitted s \<and> step s = 2)"
| "wizard_enabled s DifferentEmail = (\<not> w_isSubmitted s \<and> step s = 2)"
| "wizard_enabled s (PasswordChange v) = (\<not> w_isSubmitted s \<and> step s = 3)"
| "wizard_enabled s TogglePassword = (\<not> w_isSubmitted s \<and> step s = 3)"
| "wizard_enabled s PasswordSubmit = (\<not> w_isSubmitted s \<and> step s = 3)"

fun wizard_handler :: "wizard_event \<Rightarrow> wizard_state \<Rightarrow> wizard_state" where
  "wizard_handler (EmailChange v) s = s\<lparr>w_formData := (w_formData s)\<lparr>w_email := v\<rparr>\<rparr>"
| "wizard_handler (OTPChange v) s = s\<lparr>w_formData := (w_formData s)\<lparr>w_otp := v\<rparr>\<rparr>"
| "wizard_handler (PasswordChange v) s = s\<lparr>w_formData := (w_formData s)\<lparr>w_password := v\<rparr>\<rparr>"
| "wizard_handler EmailSubmit s = handleEmailSubmit s"
| "wizard_handler OTPSubmit s = handleOTPSubmit s"
| "wizard_handler PasswordSubmit s = handlePasswordSubmit s"
| "wizard_handler Back s = handleBack s"
| "wizard_handler DifferentEmail s = s\<lparr>step := 1\<rparr>"
| "wizard_handler (SocialLogin p) s = handleSocialLogin p s"
| "wizard_handler TogglePassword s = s\<lparr>w_showPassword := \<not> w_showPassword s\<rparr>"
| "wizard_handler Continue s = continue s"

definition wizard_fire :: "wizard_state \<Rightarrow> wizard_event \<Rightarrow> wizard_state" where
  "wizard_fire s ev =
     (if wizard_enabled s ev then wizard_rerender s (wizard_handler ev s) else s)"

fun wizard_run :: "wizard_state \<Rightarrow> wizard_event list \<Rightarrow> wizard_state" where
  "wizard_run s [] = s"
| "wizard_run s (ev # evs) = wizard_run (wizard_fire s ev) evs"

text \<open>The colour class of the wizard's strength bar, read from the stored strength.\<close>

definition strength_bar_class :: "int \<Rightarrow> jsstring" where
  "strength_bar_class strength =
     (if strength < 40 then js ''bg-destructive''
      else if strength < 80 then js ''bg-yellow-500''
      else js ''bg-success'')"

text \<open>The checklist and the bar are rendered for a truthy password; the bar needs a
  positive strength as well.\<close>

definition checklist_shown :: "wizard_state \<Rightarrow> bool" where
  "checklist_shown s \<longleftrightarrow> step s = 3 \<and> \<not> w_isSubmitted s \<and> \<not> falsy (w_password (w_formData s))"

definition strength_bar_shown :: "wizard_state \<Rightarrow> bool" where
  "strength_bar_shown s \<longleftrightarrow> checklist_shown s \<and> w_passwordStrength s > 0"

section \<open>The specification's reading of the validators and scorers\<close>

text \<open>
  The definitions of this section follow the wording of the specification, not the
  code; the theorems below compare them with the functions of the source.
\<close>

definition has_uppercase :: "jsstring \<Rightarrow> bool" where
  "has_uppercase p \<longleftrightarrow> (\<exists>c\<in>set p. cu CHR ''A'' \<le> c \<and> c \<le> cu CHR ''Z'')"

definition has_lowercase :: "jsstring \<Rightarrow> bool" where
  "has_lowercase p \<longleftrightarrow> (\<exists>c\<in>set p. cu CHR ''a'' \<le> c \<and> c \<le> cu CHR ''z'')"

definition has_digit :: "jsstring \<Rightarrow> bool" where
  "has_digit p \<longleftrightarrow> (\<exists>c\<in>set p. cu CHR ''0'' \<le> c \<and> c \<le> cu CHR ''9'')"

definition has_symbol :: "jsstring \<Rightarrow> bool" where
  "has_symbol p \<longleftrightarrow> (\<exists>c\<in>set p. c \<in> set (js ''!@#$%^&*''))"

text \<open>
  The strict policy as an ordered list of checks, each with the condition under which it
  fails and its reason: Required, TooShort, MissingUppercase, MissingLowercase,
  MissingDigit, MissingSymbol. The reasons are the messages of the single-page form.
\<close>

definition strict_checks :: "((jsstring \<Rightarrow> bool) \<times> jsstring) list" where
  "strict_checks =
     [(\<lambda>p. p = [], js ''Password is required''),
      (\<lambda>p. length p < 8, js ''Password must be at least 8 characters''),
      (\<lambda>p. \<not> has_uppercase p, js ''Password must contain an uppercase letter''),
      (\<lambda>p. \<not> has_lowercase p, js ''Password must contain a lowercase letter''),
      (\<lambda>p. \<not> has_digit p, js ''Password must contain a number''),
      (\<lambda>p. \<not> has_symbol p, js ''Password must contain a special character (!@#$%^&*)'')]"

text \<open>The reason of the first check that fails, if any.\<close>

fun first_failing :: "(('a \<Rightarrow> bool) \<times> 'r) list \<Rightarrow> 'a \<Rightarrow> 'r option" where
  "first_failing [] x = None"
| "first_failing ((fails, reason) # cs) x = (if fails x then Some reason else first_failing cs x)"

text \<open>The additive scores: each sub-check contributes its weight on its own.\<close>

definition weight :: "bool \<Rightarrow> int \<Rightarrow> int" where
  "weight b w = (if b then w else 0)"

definition relaxed_score :: "jsstring \<Rightarrow> int" where
  "relaxed_score p =
     weight (length p \<ge> 8) 40 + weight (has_digit p) 30 + weight (has_symbol p) 30"

definition relaxed_requirements :: "jsstring \<Rightarrow> requirements" where
  "relaxed_requirements p =
     \<lparr>minLength = (length p \<ge> 8), hasNumber = has_digit p, hasSymbol = has_symbol p\<rparr>"

text \<open>
  The three display bands. The single-page form shows a band as a label and as a colour
  class; the wizard shows the colour class of its strength bar only.
\<close>

datatype band = Weak | Medium | Strong

fun band_label :: "band \<Rightarrow> jsstring" where
  "band_label Weak = js ''Weak''"
| "band_label Medium = js ''Medium''"
| "band_label Strong = js ''Strong''"

fun band_colour :: "band \<Rightarrow> jsstring" where
  "band_colour Weak = js ''bg-destructive''"
| "band_colour Medium = js ''bg-yellow-500''"
| "band_colour Strong = js ''bg-success''"

text \<open>
  Event sequences of the wizard, from the first render: a rejected code at step 2, a
  rejected password at step 3, and a password typed and then erased at step 3.
\<close>

definition code_rejected :: "wizard_event list" where
  "code_rejected =
     [EmailChange (js ''a@b.com''), EmailSubmit, OTPChange (js ''12''), OTPSubmit]"

definition password_rejected :: "wizard_event list" where
  "password_rejected =
     [EmailChange (js ''a@b.com''), EmailSubmit, OTPChange (js ''12345''), OTPSubmit,
      PasswordChange (js ''abc''), PasswordSubmit]"

definition password_typed :: "wizard_event list" where
  "password_typed =
     [EmailChange (js ''a@b.com''), EmailSubmit, OTPChange (js ''12345''), OTPSubmit,
      PasswordChange (js ''abcdefgh'')]"

text \<open>The stored strength and flags agree with the current password unless it is empty.\<close>

definition strength_in_sync :: "wizard_state \<Rightarrow> bool" where
  "strength_in_sync s \<longleftrightarrow>
     (w_password (w_formData s) \<noteq> [] \<longrightarrow>
        w_passwordStrength s = relaxed_score (w_password (w_formData s)) \<and>
        passwordRequirements s = relaxed_requirements (w_password (w_formData s)))"

text \<open>
  The email shape in the words of the specification, condition by condition: no internal
  white space (none is left once the value is trimmed), exactly one \<open>@\<close>, at least one
  \<open>.\<close> after the \<open>@\<close>, and no \<open>@\<close> in the domain tail.
\<close>

definition local_part :: "jsstring \<Rightarrow> jsstring" where
  "local_part v = takeWhile (\<lambda>c. c \<noteq> cu CHR ''@'') v"

definition domain_tail :: "jsstring \<Rightarrow> jsstring" where
  "domain_tail v = tl (dropWhile (\<lambda>c. c \<noteq> cu CHR ''@'') v)"

definition spec_email_shape :: "jsstring \<Rightarrow> bool" where
  "spec_email_shape v \<longleftrightarrow>
     (\<forall>c\<in>set (trim v). \<not> is_space c) \<and>
     count_list v (cu CHR ''@'') = 1 \<and>
     cu CHR ''.'' \<in> set (domain_tail v) \<and>
     cu CHR ''@'' \<notin> set (domain_tail v)"

text \<open>
  A narrower shape, with three non-empty parts: no white space anywhere in the value as
  typed (leading and trailing included), exactly one \<open>@\<close>, a non-empty local part before
  it, no \<open>@\<close> in the tail after it, and in that tail a \<open>.\<close> that is neither its first nor
  its last code unit, so that a non-empty domain stands before that dot and a non-empty
  top-level part after it.
\<close>

definition three_part_shape :: "jsstring \<Rightarrow> bool" where
  "three_part_shape v \<longleftrightarrow>
     (\<forall>c\<in>set v. \<not> is_space c) \<and>
     count_list v (cu CHR ''@'') = 1 \<and>
     local_part v \<noteq> [] \<and>
     cu CHR ''@'' \<notin> set (domain_tail v) \<and>
     cu CHR ''.'' \<in> set (butlast (tl (domain_tail v)))"

section \<open>Regular expressions: what the class tests decide\<close>

lemma js_nonempty: "s \<noteq> [] \<Longrightarrow> \<not> falsy (js s)"
  by (simp add: falsy_def js_def)

lemma match_anywhere_once:
  "match_anywhere [Once a] False s \<longleftrightarrow> (\<exists>c\<in>set s. atom_ok a c)"
  by (induction s) auto

lemma test_upper: "test re_upper p \<longleftrightarrow> has_uppercase p"
  by (simp add: test_def re_upper_def has_uppercase_def match_anywhere_once)

lemma test_lower: "test re_lower p \<longleftrightarrow> has_lowercase p"
  by (simp add: test_def re_lower_def has_lowercase_def match_anywhere_once)

lemma test_number: "test re_number p \<longleftrightarrow> has_digit p"
  by (simp add: test_def re_number_def has_digit_def match_anywhere_once)

lemma test_symbol: "test re_symbol p \<longleftrightarrow> has_symbol p"
  by (simp add: test_def re_symbol_def has_symbol_def match_anywhere_once js_def)

section \<open>The first failing check\<close>

lemma first_failing_in: "first_failing cs x = Some r \<Longrightarrow> r \<in> snd ` set cs"
  by (induction cs x rule: first_failing.induct) (auto split: if_splits)

lemma first_failing_Some_iff:
  "distinct (map snd cs) \<Longrightarrow> i < length cs \<Longrightarrow>
   first_failing cs x = Some (snd (cs ! i)) \<longleftrightarrow>
   fst (cs ! i) x \<and> (\<forall>j<i. \<not> fst (cs ! j) x)"
proof (induction cs x arbitrary: i rule: first_failing.induct)
  case (1 x)
  then show ?case by simp
next
  case (2 fails reason cs x)
  from "2.prems" have fresh: "reason \<notin> snd ` set cs" and dist: "distinct (map snd cs)"
    by simp_all
  show ?case
  proof (cases i)
    case 0
    from fresh have "first_failing cs x \<noteq> Some reason"
      using first_failing_in by fastforce
    with 0 show ?thesis by simp
  next
    case (Suc k)
    with "2.prems" have k: "k < length cs" by simp
    then have "snd (cs ! k) \<in> snd ` set cs" by simp
    with fresh have neq: "reason \<noteq> snd (cs ! k)" by metis
    show ?thesis
    proof (cases "fails x")
      case True
      with neq Suc show ?thesis by auto
    next
      case False
      with "2.IH" [OF False dist k] Suc show ?thesis
        by (simp add: All_less_Suc2)
    qed
  qed
qed

lemma first_failing_None_iff:
  "first_failing cs x = None \<longleftrightarrow> (\<forall>i<length cs. \<not> fst (cs ! i) x)"
  apply (induction cs x rule: first_failing.induct)
   apply (auto simp: less_Suc_eq_0_disj)
  done

section \<open>Validators and scorers against the specification\<close>

lemma validatePassword_first_failing: "validatePassword p = first_failing strict_checks p"
  by (simp add: validatePassword_def strict_checks_def falsy_def test_upper test_lower
      test_number test_symbol)

lemma strict_reasons_distinct: "distinct (map snd strict_checks)"
  by (simp add: strict_checks_def js_def cu_def)

lemma validateOTP_cases: "validateOTP otp = (if otp = [] then Some (js ''Verification code is required'')
   else if length otp \<noteq> 5 then Some (js ''Code must be 5 digits'') else None)"
  by (simp add: validateOTP_def falsy_def)

lemma relaxed_strength:
  "w_passwordStrength (wizard_calculatePasswordStrength p s) = relaxed_score p"
  by (simp add: wizard_calculatePasswordStrength_def relaxed_score_def weight_def Let_def
      test_number test_symbol)

lemma relaxed_flags:
  "passwordRequirements (wizard_calculatePasswordStrength p s) = relaxed_requirements p"
  by (simp add: wizard_calculatePasswordStrength_def relaxed_requirements_def Let_def
      test_number test_symbol)

section \<open>Claims about the strict password policy\<close>

lemma strict_checks_length: "length strict_checks = 6"
  by (simp add: strict_checks_def)

text \<open>
  Claim C2. The strict-policy \<open>validatePassword\<close> checks Required, TooShort (length below
  8), MissingUppercase, MissingLowercase, MissingDigit and MissingSymbol in this order and
  returns the reason of the first check that fails, and only that one: its result is
  \<open>first_failing strict_checks\<close>, the six reasons are pairwise different, the check number
  \<open>i\<close> is the one reported exactly when it fails and no earlier check does, and the
  password is valid exactly when no check fails. For \<open>"abcdefgh"\<close> the result is
  MissingUppercase.
\<close>

theorem C2_validatePassword_first_failing:
  "validatePassword p = first_failing strict_checks p \<and>
   distinct (map snd strict_checks) \<and>
   (\<forall>i<length strict_checks.
      validatePassword p = Some (snd (strict_checks ! i)) \<longleftrightarrow>
      fst (strict_checks ! i) p \<and> (\<forall>j<i. \<not> fst (strict_checks ! j) p)) \<and>
   (validatePassword p = None \<longleftrightarrow> (\<forall>i<length strict_checks. \<not> fst (strict_checks ! i) p)) \<and>
   validatePassword (js ''abcdefgh'') = Some (js ''Password must contain an uppercase letter'')"
proof -
  have ex: "validatePassword (js ''abcdefgh'') =
      Some (js ''Password must contain an uppercase letter'')"
    by code_simp
  show ?thesis
    using ex first_failing_Some_iff [OF strict_reasons_distinct, of _ p]
    by (simp add: validatePassword_first_failing strict_reasons_distinct first_failing_None_iff)
qed

text \<open>
  At \<open>"abcdefgh"\<close> the checks 0 (Required) and 1 (TooShort) pass and check 2
  (MissingUppercase) fails, although lowercase, digit and symbol checks come later.
\<close>

theorem C2_witness:
  "2 < length strict_checks \<and>
   validatePassword (js ''abcdefgh'') = Some (snd (strict_checks ! 2)) \<and>
   fst (strict_checks ! 2) (js ''abcdefgh'') \<and>
   \<not> fst (strict_checks ! 0) (js ''abcdefgh'') \<and>
   \<not> fst (strict_checks ! 1) (js ''abcdefgh'')"
proof -
  note C2 = C2_validatePassword_first_failing [of "js ''abcdefgh''"]
  have len: "2 < length strict_checks"
    by (simp add: strict_checks_length)
  have msg: "snd (strict_checks ! 2) = js ''Password must contain an uppercase letter''"
    by (simp add: strict_checks_def)
  from C2 have "validatePassword (js ''abcdefgh'') =
      Some (js ''Password must contain an uppercase letter'')"
    by blast
  with msg have res: "validatePassword (js ''abcdefgh'') = Some (snd (strict_checks ! 2))"
    by metis
  from C2 len have "validatePassword (js ''abcdefgh'') = Some (snd (strict_checks ! 2)) \<longleftrightarrow>
      fst (strict_checks ! 2) (js ''abcdefgh'') \<and>
      (\<forall>j<2. \<not> fst (strict_checks ! j) (js ''abcdefgh''))"
    by blast
  with res have here: "fst (strict_checks ! 2) (js ''abcdefgh'')"
    and before: "\<forall>j<2. \<not> fst (strict_checks ! j) (js ''abcdefgh'')"
    by blast+
  from before have "\<not> fst (strict_checks ! 0) (js ''abcdefgh'')"
    and "\<not> fst (strict_checks ! 1) (js ''abcdefgh'')"
    by (metis zero_less_numeral, metis one_less_numeral_iff semiring_norm(76))
  with len res here show ?thesis
    by blast
qed

text \<open>
  Claim C5. The strict-policy strength is the sum of six independent contributions:
  20 for at least 8 code units, 20 for at least 12, 20 for an uppercase letter, 20 for a
  lowercase letter, 10 for a digit and 10 for one of the symbols \<open>!@#$%^&*\<close>. It lies
  between 0 and 100. The strength of \<open>"Abc12345!"\<close> is 80, and the label of the single-page
  form is \<open>Strong\<close> exactly for a strength of 70 or more.
\<close>

theorem C5_strict_score_additive:
  "calculatePasswordStrength p =
     weight (8 \<le> length p) 20 + weight (12 \<le> length p) 20 + weight (has_uppercase p) 20 +
     weight (has_lowercase p) 20 + weight (has_digit p) 10 + weight (has_symbol p) 10 \<and>
   0 \<le> calculatePasswordStrength p \<and> calculatePasswordStrength p \<le> 100 \<and>
   calculatePasswordStrength (js ''Abc12345!'') = 80 \<and>
   (getPasswordStrengthLabel s = js ''Strong'' \<longleftrightarrow> 70 \<le> s) \<and>
   getPasswordStrengthLabel (calculatePasswordStrength (js ''Abc12345!'')) = js ''Strong''"
proof -
  have sum: "calculatePasswordStrength p =
     weight (8 \<le> length p) 20 + weight (12 \<le> length p) 20 + weight (has_uppercase p) 20 +
     weight (has_lowercase p) 20 + weight (has_digit p) 10 + weight (has_symbol p) 10"
    by (simp add: calculatePasswordStrength_def weight_def test_upper test_lower
        test_number test_symbol Let_def)
  have bounds: "0 \<le> calculatePasswordStrength p \<and> calculatePasswordStrength p \<le> 100"
    unfolding sum by (simp add: weight_def)
  have ex: "calculatePasswordStrength (js ''Abc12345!'') = 80"
    by code_simp
  have label: "getPasswordStrengthLabel s = js ''Strong'' \<longleftrightarrow> 70 \<le> s"
    by (simp add: getPasswordStrengthLabel_def js_def cu_def)
  have "getPasswordStrengthLabel 80 = js ''Strong''"
    by (simp add: getPasswordStrengthLabel_def)
  with ex have strong: "getPasswordStrengthLabel (calculatePasswordStrength (js ''Abc12345!'')) =
      js ''Strong''"
    by simp
  from sum bounds ex label strong show ?thesis
    by blast
qed

theorem C5_witness:
  "8 \<le> length (js ''Abc12345!'') \<and> \<not> 12 \<le> length (js ''Abc12345!'') \<and>
   has_uppercase (js ''Abc12345!'') \<and> has_lowercase (js ''Abc12345!'') \<and>
   has_digit (js ''Abc12345!'') \<and> has_symbol (js ''Abc12345!'') \<and>
   calculatePasswordStrength (js ''Abc12345!'') = 20 + 0 + 20 + 20 + 10 + 10 \<and>
   (70 :: int) \<le> 80 \<and> getPasswordStrengthLabel 80 = js ''Strong''"
proof -
  have "has_uppercase (js ''Abc12345!'')" "has_lowercase (js ''Abc12345!'')"
    "has_digit (js ''Abc12345!'')" "has_symbol (js ''Abc12345!'')"
    by (simp_all add: has_uppercase_def has_lowercase_def has_digit_def has_symbol_def
        js_def cu_def)
  then show ?thesis
    using C5_strict_score_additive [of "js ''Abc12345!''" 80]
    by (simp add: js_def)
qed

text \<open>
  Claim C10. A password that the strict-policy \<open>validatePassword\<close> accepts has a strict
  strength of at least 80, so the single-page form labels it \<open>Strong\<close>.
\<close>

theorem C10_strict_valid_is_strong:
  assumes "validatePassword p = None"
  shows "80 \<le> calculatePasswordStrength p \<and>
         getPasswordStrengthLabel (calculatePasswordStrength p) = js ''Strong''"
proof -
  from assms have "first_failing strict_checks p = None"
    by (simp add: validatePassword_first_failing)
  then have ok: "8 \<le> length p" "has_uppercase p" "has_lowercase p" "has_digit p" "has_symbol p"
    by (simp_all add: strict_checks_def split: if_splits)
  then have "80 \<le> calculatePasswordStrength p"
    by (simp add: calculatePasswordStrength_def test_upper test_lower test_number test_symbol
        Let_def)
  then show ?thesis
    by (simp add: getPasswordStrengthLabel_def)
qed

theorem C10_witness:
  "validatePassword (js ''Abc12345!'') = None \<and>
   80 \<le> calculatePasswordStrength (js ''Abc12345!'') \<and>
   getPasswordStrengthLabel (calculatePasswordStrength (js ''Abc12345!'')) = js ''Strong''"
proof -
  have valid: "validatePassword (js ''Abc12345!'') = None"
    by code_simp
  from C10_strict_valid_is_strong [OF valid] valid show ?thesis
    by blast
qed

section \<open>Claims about the single-page form\<close>

lemma stored_validateName: "stored_if_truthy (validateName v) = validateName v"
  by (simp add: stored_if_truthy_def validateName_def js_nonempty)

lemma stored_validateEmail: "stored_if_truthy (validateEmail v) = validateEmail v"
  by (simp add: stored_if_truthy_def validateEmail_def js_nonempty)

lemma stored_validatePhone: "stored_if_truthy (validatePhone v) = validatePhone v"
  by (simp add: stored_if_truthy_def validatePhone_def js_nonempty)

lemma stored_validatePassword: "stored_if_truthy (validatePassword v) = validatePassword v"
  by (simp add: stored_if_truthy_def validatePassword_def js_nonempty)

lemma handleSubmit_errors:
  "errors (handleSubmit s) =
     \<lparr>name_error = validateName (f_name (formData s)),
      email_error = validateEmail (f_email (formData s)),
      phone_error = validatePhone (f_phone (formData s)),
      password_error = validatePassword (f_password (formData s))\<rparr>"
  by (simp add: handleSubmit_def Let_def)

lemma handleSubmit_isSubmitted:
  "isSubmitted (handleSubmit s) \<longleftrightarrow>
     isSubmitted s \<or>
     (validateName (f_name (formData s)) = None \<and> validateEmail (f_email (formData s)) = None \<and>
      validatePhone (f_phone (formData s)) = None \<and>
      validatePassword (f_password (formData s)) = None)"
  by (auto simp: handleSubmit_def Let_def Object_values_def)

lemma handleSubmit_frame:
  "formData (handleSubmit s) = formData s"
  "touched (handleSubmit s) =
     \<lparr>name_touched = True, email_touched = True, phone_touched = True, password_touched = True\<rparr>"
  by (simp_all add: handleSubmit_def Let_def)

lemma form_fire_Submit:
  "\<not> isSubmitted s \<Longrightarrow> form_fire s Submit = handleSubmit s"
  apply (simp add: form_fire_def rerender_def handleSubmit_frame Let_def validation_effect_def
      stored_validateName stored_validateEmail stored_validatePhone stored_validatePassword)
  apply (simp add:  handleSubmit_def Let_def)
  done

text \<open>
  Claim C3. On submit of the single-page form all four fields are validated whatever the
  touched flags are: the stored errors are the results of the four validators, and
  neither they nor the outcome change with the touched flags. The submission succeeds
  (\<open>isSubmitted\<close> becomes true) exactly when all four validators return no error; otherwise
  \<open>isSubmitted\<close> stays false. The effects that run after the handler change nothing more.
\<close>

theorem C3_submit_validates_all_fields:
  assumes "\<not> isSubmitted s"
  shows "errors (handleSubmit s) =
           \<lparr>name_error = validateName (f_name (formData s)),
            email_error = validateEmail (f_email (formData s)),
            phone_error = validatePhone (f_phone (formData s)),
            password_error = validatePassword (f_password (formData s))\<rparr> \<and>
         (isSubmitted (handleSubmit s) \<longleftrightarrow>
            validateName (f_name (formData s)) = None \<and>
            validateEmail (f_email (formData s)) = None \<and>
            validatePhone (f_phone (formData s)) = None \<and>
            validatePassword (f_password (formData s)) = None) \<and>
         errors (handleSubmit (s\<lparr>touched := t\<rparr>)) = errors (handleSubmit s) \<and>
         isSubmitted (handleSubmit (s\<lparr>touched := t\<rparr>)) = isSubmitted (handleSubmit s) \<and>
         form_fire s Submit = handleSubmit s"
  using assms
  by (simp add: handleSubmit_errors handleSubmit_isSubmitted form_fire_Submit)

lemma valid_examples:
  "validateName (js ''John Doe'') = None"
  "validateEmail (js ''a@b.com'') = None"
  "validatePhone (js ''+1 (555) 123-4567'') = None"
  "validatePassword (js ''Abc12345!'') = None"
  by code_simp+

lemma invalid_example: "validatePhone (js ''555-123'') = Some (js ''Phone number must be at least 10 digits'')"
  by code_simp

text \<open>
  A form with four valid values is submitted; with the phone number \<open>555-123\<close> it is
  rejected and only the phone error is stored.
\<close>

theorem C3_witness:
  "\<not> isSubmitted (initial_form\<lparr>formData :=
       \<lparr>f_name = js ''John Doe'', f_email = js ''a@b.com'',
        f_phone = js ''+1 (555) 123-4567'', f_password = js ''Abc12345!''\<rparr>\<rparr>) \<and>
   isSubmitted (handleSubmit (initial_form\<lparr>formData :=
       \<lparr>f_name = js ''John Doe'', f_email = js ''a@b.com'',
        f_phone = js ''+1 (555) 123-4567'', f_password = js ''Abc12345!''\<rparr>\<rparr>)) \<and>
   \<not> isSubmitted (initial_form\<lparr>formData :=
       \<lparr>f_name = js ''John Doe'', f_email = js ''a@b.com'',
        f_phone = js ''555-123'', f_password = js ''Abc12345!''\<rparr>\<rparr>) \<and>
   \<not> isSubmitted (handleSubmit (initial_form\<lparr>formData :=
       \<lparr>f_name = js ''John Doe'', f_email = js ''a@b.com'',
        f_phone = js ''555-123'', f_password = js ''Abc12345!''\<rparr>\<rparr>)) \<and>
   errors (handleSubmit (initial_form\<lparr>formData :=
       \<lparr>f_name = js ''John Doe'', f_email = js ''a@b.com'',
        f_phone = js ''555-123'', f_password = js ''Abc12345!''\<rparr>\<rparr>)) =
     \<lparr>name_error = None, email_error = None,
      phone_error = Some (js ''Phone number must be at least 10 digits''),
      password_error = None\<rparr>"
proof -
  have a: "\<not> isSubmitted (initial_form\<lparr>formData :=
       \<lparr>f_name = js ''John Doe'', f_email = js ''a@b.com'',
        f_phone = js ''+1 (555) 123-4567'', f_password = js ''Abc12345!''\<rparr>\<rparr>)"
    by (simp add: initial_form_def)
  have b: "\<not> isSubmitted (initial_form\<lparr>formData :=
       \<lparr>f_name = js ''John Doe'', f_email = js ''a@b.com'',
        f_phone = js ''555-123'', f_password = js ''Abc12345!''\<rparr>\<rparr>)"
    by (simp add: initial_form_def)
  show ?thesis
    using C3_submit_validates_all_fields [OF a] C3_submit_validates_all_fields [OF b] a b
    by (simp add: valid_examples invalid_example)
qed

section \<open>Claims about the wizard's validators\<close>

text \<open>
  Claim C8. \<open>validateOTP\<close> returns Required (\<open>Verification code is required\<close>) for the
  empty string, WrongLength (\<open>Code must be 5 digits\<close>) for every other string whose length
  is not 5, and no error for every string of exactly 5 code units, whatever they are.
\<close>

theorem C8_validateOTP_length_only:
  "(validateOTP otp = Some (js ''Verification code is required'') \<longleftrightarrow> otp = []) \<and>
   (validateOTP otp = Some (js ''Code must be 5 digits'') \<longleftrightarrow> otp \<noteq> [] \<and> length otp \<noteq> 5) \<and>
   (validateOTP otp = None \<longleftrightarrow> length otp = 5)"
proof -
  have "js ''Verification code is required'' \<noteq> js ''Code must be 5 digits''"
    by (simp add: js_def cu_def)
  then show ?thesis
    by (auto simp: validateOTP_cases)
qed

theorem C8_witness:
  "length (js ''ab!de'') = 5 \<and> validateOTP (js ''ab!de'') = None \<and>
   js ''1234'' \<noteq> [] \<and> length (js ''1234'') \<noteq> 5 \<and>
   validateOTP (js ''1234'') = Some (js ''Code must be 5 digits'') \<and>
   validateOTP [] = Some (js ''Verification code is required'')"
  using C8_validateOTP_length_only [of "js ''ab!de''"]
    C8_validateOTP_length_only [of "js ''1234''"] C8_validateOTP_length_only [of "[]"]
  by (simp add: js_def)

section \<open>Claims about the wizard's steps\<close>

lemma wizard_validateEmail_truthy:
  "wizard_validateEmail v = Some e \<Longrightarrow> \<not> falsy e"
  by (auto simp: wizard_validateEmail_def js_nonempty split: if_splits)

lemma handleEmailSubmit_invalid:
  "wizard_validateEmail (w_email (w_formData s)) = Some e \<Longrightarrow>
   handleEmailSubmit s =
     s\<lparr>w_errors := \<lparr>email_err = Some e, otp_err = None, password_err = None\<rparr>,
       w_toasts := w_toasts s @ [Toast (js ''Validation Error'') e True]\<rparr>"
  by (simp add: handleEmailSubmit_def wizard_validateEmail_truthy)

lemma handleEmailSubmit_valid:
  "wizard_validateEmail (w_email (w_formData s)) = None \<Longrightarrow>
   handleEmailSubmit s =
     s\<lparr>w_errors := no_wizard_errors, step := 2,
       w_toasts := w_toasts s @
         [Toast (js ''Code Sent!'')
            (js ''We've sent a verification code to '' @ w_email (w_formData s)) False]\<rparr>"
  by (simp add: handleEmailSubmit_def)

lemma wizard_fire_same_password:
  "wizard_enabled s ev \<Longrightarrow> w_password (w_formData (wizard_handler ev s)) = w_password (w_formData s) \<Longrightarrow>
   wizard_fire s ev = wizard_handler ev s"
  by (simp add: wizard_fire_def wizard_rerender_def)

lemma handleEmailSubmit_formData: "w_formData (handleEmailSubmit s) = w_formData s"
  by (cases "wizard_validateEmail (w_email (w_formData s))")
    (simp_all add: handleEmailSubmit_valid handleEmailSubmit_invalid)

text \<open>
  Claim C4. In the wizard at step 1 (EmailEntry), submitting an email for which
  \<open>validateEmail\<close> returns an error leaves the step at 1 and stores an error map whose
  email field holds that (non-empty) message while the otp and password fields are
  absent; the field values and the submitted flag are untouched. The step becomes 2
  (OTPEntry) exactly when \<open>validateEmail\<close> returns no error, and then no error is stored.
\<close>

theorem C4_invalid_email_stays_at_step_1:
  assumes "step s = 1"
  shows "(\<forall>e. wizard_validateEmail (w_email (w_formData s)) = Some e \<longrightarrow>
            step (handleEmailSubmit s) = 1 \<and>
            w_errors (handleEmailSubmit s) =
              \<lparr>email_err = Some e, otp_err = None, password_err = None\<rparr> \<and>
            e \<noteq> [] \<and>
            w_formData (handleEmailSubmit s) = w_formData s \<and>
            w_isSubmitted (handleEmailSubmit s) = w_isSubmitted s) \<and>
         (step (handleEmailSubmit s) = 2 \<longleftrightarrow>
            wizard_validateEmail (w_email (w_formData s)) = None) \<and>
         (wizard_validateEmail (w_email (w_formData s)) = None \<longrightarrow>
            w_errors (handleEmailSubmit s) =
              \<lparr>email_err = None, otp_err = None, password_err = None\<rparr>) \<and>
         (\<not> w_isSubmitted s \<longrightarrow> wizard_fire s EmailSubmit = handleEmailSubmit s)"
proof (cases "wizard_validateEmail (w_email (w_formData s))")
  case None
  with assms show ?thesis
    by (simp add: handleEmailSubmit_valid no_wizard_errors_def wizard_fire_same_password)
next
  case (Some e)
  from wizard_validateEmail_truthy [OF Some] have "e \<noteq> []"
    by (simp add: falsy_def)
  with Some assms show ?thesis
    by (simp add: handleEmailSubmit_invalid wizard_fire_same_password)
qed

lemma email_examples:
  "wizard_validateEmail (js ''not-an-email'') = Some (js ''Please enter a valid email address'')"
  "wizard_validateEmail (js ''a@b.com'') = None"
  by code_simp+

theorem C4_witness:
  "step (initial_wizard\<lparr>w_formData := \<lparr>w_email = js ''not-an-email'', w_otp = [], w_password = []\<rparr>\<rparr>) = 1 \<and>
   wizard_validateEmail (js ''not-an-email'') = Some (js ''Please enter a valid email address'') \<and>
   step (handleEmailSubmit
     (initial_wizard\<lparr>w_formData := \<lparr>w_email = js ''not-an-email'', w_otp = [], w_password = []\<rparr>\<rparr>)) = 1 \<and>
   w_errors (handleEmailSubmit
     (initial_wizard\<lparr>w_formData := \<lparr>w_email = js ''not-an-email'', w_otp = [], w_password = []\<rparr>\<rparr>)) =
     \<lparr>email_err = Some (js ''Please enter a valid email address''), otp_err = None,
      password_err = None\<rparr> \<and>
   wizard_validateEmail (js ''a@b.com'') = None \<and>
   step (handleEmailSubmit
     (initial_wizard\<lparr>w_formData := \<lparr>w_email = js ''a@b.com'', w_otp = [], w_password = []\<rparr>\<rparr>)) = 2"
proof -
  have a: "step (initial_wizard\<lparr>w_formData :=
      \<lparr>w_email = js ''not-an-email'', w_otp = [], w_password = []\<rparr>\<rparr>) = 1"
    by (simp add: initial_wizard_def)
  have b: "step (initial_wizard\<lparr>w_formData :=
      \<lparr>w_email = js ''a@b.com'', w_otp = [], w_password = []\<rparr>\<rparr>) = 1"
    by (simp add: initial_wizard_def)
  show ?thesis
    using C4_invalid_email_stays_at_step_1 [OF a] C4_invalid_email_stays_at_step_1 [OF b] a
    by (simp add: email_examples)
qed

text \<open>
  Claim C9. The back action of the wizard lowers the step by exactly one, clears all three
  error fields and leaves the field values (email, otp, password) as they are. From step
  2 (OTPEntry) and step 3 (PasswordEntry) the back arrow is rendered and the whole event,
  re-rendering included, is this handler.
\<close>

theorem C9_back_keeps_field_values:
  "step (handleBack s) = step s - 1 \<and>
   w_errors (handleBack s) = \<lparr>email_err = None, otp_err = None, password_err = None\<rparr> \<and>
   w_formData (handleBack s) = w_formData s \<and>
   ((step s = 2 \<or> step s = 3) \<and> \<not> w_isSubmitted s \<longrightarrow>
      wizard_enabled s Back \<and> wizard_fire s Back = handleBack s)"
  by (auto simp: handleBack_def no_wizard_errors_def wizard_fire_def wizard_rerender_def)

text \<open>
  Two reachable states: after a rejected code the wizard is at step 2 with the otp error
  stored, after a rejected password at step 3; the back action leads to step 1 and to
  step 2, with no error left and the typed values kept.
\<close>

lemma code_rejected_state:
  "wizard_run initial_wizard code_rejected =
     \<lparr>step = 2,
      w_formData = \<lparr>w_email = js ''a@b.com'', w_otp = js ''12'', w_password = []\<rparr>,
      w_errors = \<lparr>email_err = None, otp_err = Some (js ''Code must be 5 digits''),
                  password_err = None\<rparr>,
      w_showPassword = False, w_isSubmitted = False, w_passwordStrength = 0,
      passwordRequirements = \<lparr>minLength = False, hasNumber = False, hasSymbol = False\<rparr>,
      w_toasts = [Toast (js ''Code Sent!'') (js ''We've sent a verification code to a@b.com'') False,
                  Toast (js ''Validation Error'') (js ''Code must be 5 digits'') True]\<rparr>"
  by code_simp

lemma password_rejected_state:
  "wizard_run initial_wizard password_rejected =
     \<lparr>step = 3,
      w_formData = \<lparr>w_email = js ''a@b.com'', w_otp = js ''12345'', w_password = js ''abc''\<rparr>,
      w_errors = \<lparr>email_err = None, otp_err = None,
                  password_err = Some (js ''Password must be at least 8 characters'')\<rparr>,
      w_showPassword = False, w_isSubmitted = False, w_passwordStrength = 0,
      passwordRequirements = \<lparr>minLength = False, hasNumber = False, hasSymbol = False\<rparr>,
      w_toasts = [Toast (js ''Code Sent!'') (js ''We've sent a verification code to a@b.com'') False,
                  Toast (js ''Validation Error'')
                    (js ''Password must be at least 8 characters'') True]\<rparr>"
  by code_simp

theorem C9_witness:
  "step (wizard_run initial_wizard code_rejected) = 2 \<and>
   \<not> w_isSubmitted (wizard_run initial_wizard code_rejected) \<and>
   w_errors (wizard_run initial_wizard code_rejected) =
     \<lparr>email_err = None, otp_err = Some (js ''Code must be 5 digits''), password_err = None\<rparr> \<and>
   step (wizard_fire (wizard_run initial_wizard code_rejected) Back) = 1 \<and>
   w_errors (wizard_fire (wizard_run initial_wizard code_rejected) Back) =
     \<lparr>email_err = None, otp_err = None, password_err = None\<rparr> \<and>
   w_formData (wizard_fire (wizard_run initial_wizard code_rejected) Back) =
     \<lparr>w_email = js ''a@b.com'', w_otp = js ''12'', w_password = []\<rparr> \<and>
   step (wizard_run initial_wizard password_rejected) = 3 \<and>
   \<not> w_isSubmitted (wizard_run initial_wizard password_rejected) \<and>
   step (wizard_fire (wizard_run initial_wizard password_rejected) Back) = 2 \<and>
   w_errors (wizard_fire (wizard_run initial_wizard password_rejected) Back) =
     \<lparr>email_err = None, otp_err = None, password_err = None\<rparr> \<and>
   w_formData (wizard_fire (wizard_run initial_wizard password_rejected) Back) =
     \<lparr>w_email = js ''a@b.com'', w_otp = js ''12345'', w_password = js ''abc''\<rparr>"
proof -
  have a: "step (wizard_run initial_wizard code_rejected) = 2"
    "\<not> w_isSubmitted (wizard_run initial_wizard code_rejected)"
    "w_errors (wizard_run initial_wizard code_rejected) =
       \<lparr>email_err = None, otp_err = Some (js ''Code must be 5 digits''), password_err = None\<rparr>"
    "w_formData (wizard_run initial_wizard code_rejected) =
       \<lparr>w_email = js ''a@b.com'', w_otp = js ''12'', w_password = []\<rparr>"
    by (simp_all add: code_rejected_state)
  have b: "step (wizard_run initial_wizard password_rejected) = 3"
    "\<not> w_isSubmitted (wizard_run initial_wizard password_rejected)"
    "w_formData (wizard_run initial_wizard password_rejected) =
       \<lparr>w_email = js ''a@b.com'', w_otp = js ''12345'', w_password = js ''abc''\<rparr>"
    by (simp_all add: password_rejected_state)
  show ?thesis
    using C9_back_keeps_field_values [of "wizard_run initial_wizard code_rejected"]
      C9_back_keeps_field_values [of "wizard_run initial_wizard password_rejected"] a b
    by simp
qed

section \<open>Claims about the wizard's password strength\<close>

lemma band_colours_distinct:
  "js ''bg-destructive'' \<noteq> js ''bg-yellow-500''"
  "js ''bg-destructive'' \<noteq> js ''bg-success''"
  "js ''bg-yellow-500'' \<noteq> js ''bg-success''"
  by (simp_all add: js_def cu_def)

lemma inj_band_colour: "band_colour a = band_colour b \<longleftrightarrow> a = b"
  using band_colours_distinct by (cases a; cases b) auto

lemma inj_band_label: "band_label a = band_label b \<longleftrightarrow> a = b"
proof -
  have "js ''Weak'' \<noteq> js ''Medium''" "js ''Weak'' \<noteq> js ''Strong''"
    "js ''Medium'' \<noteq> js ''Strong''"
    by (simp_all add: js_def cu_def)
  then show ?thesis
    by (cases a; cases b) auto
qed

lemma strength_bar_class_band:
  "strength_bar_class x =
     band_colour (if x < 40 then Weak else if x < 80 then Medium else Strong)"
  by (simp add: strength_bar_class_def)

lemma form_colour_band:
  "getPasswordStrengthColor x =
     band_colour (if x < 40 then Weak else if x < 70 then Medium else Strong)"
  by (simp add: getPasswordStrengthColor_def)

lemma form_label_band:
  "getPasswordStrengthLabel x =
     band_label (if x < 40 then Weak else if x < 70 then Medium else Strong)"
  by (simp add: getPasswordStrengthLabel_def)

text \<open>
  Claim C6. The relaxed-policy strength that the wizard stores is 40 for at least 8 code
  units plus 30 for a digit plus 30 for one of the symbols \<open>!@#$%^&*\<close>, between 0 and 100.
  The wizard shows the band as the colour class of its strength bar: the class of the
  Weak band below 40, of the Medium band from 40 to below 80, of the Strong band from 80
  on; in the single-page form each of these colour classes goes with the label of the
  same band. The strength of \<open>"abcdefgh"\<close> is 40, which is in the Medium band.
\<close>

theorem C6_relaxed_score_and_bands:
  "w_passwordStrength (wizard_calculatePasswordStrength p s) =
     weight (8 \<le> length p) 40 + weight (has_digit p) 30 + weight (has_symbol p) 30 \<and>
   0 \<le> w_passwordStrength (wizard_calculatePasswordStrength p s) \<and>
   w_passwordStrength (wizard_calculatePasswordStrength p s) \<le> 100 \<and>
   (strength_bar_class x = band_colour Weak \<longleftrightarrow> x < 40) \<and>
   (strength_bar_class x = band_colour Medium \<longleftrightarrow> 40 \<le> x \<and> x < 80) \<and>
   (strength_bar_class x = band_colour Strong \<longleftrightarrow> 80 \<le> x) \<and>
   (getPasswordStrengthColor x = band_colour b \<longleftrightarrow> getPasswordStrengthLabel x = band_label b) \<and>
   w_passwordStrength (wizard_calculatePasswordStrength (js ''abcdefgh'') s) = 40 \<and>
   strength_bar_class 40 = band_colour Medium"
proof -
  have sum: "w_passwordStrength (wizard_calculatePasswordStrength p s) =
     weight (8 \<le> length p) 40 + weight (has_digit p) 30 + weight (has_symbol p) 30"
    by (simp add: relaxed_strength relaxed_score_def)
  have bounds: "0 \<le> w_passwordStrength (wizard_calculatePasswordStrength p s) \<and>
     w_passwordStrength (wizard_calculatePasswordStrength p s) \<le> 100"
    unfolding sum by (simp add: weight_def)
  have bands: "(strength_bar_class x = band_colour Weak \<longleftrightarrow> x < 40) \<and>
     (strength_bar_class x = band_colour Medium \<longleftrightarrow> 40 \<le> x \<and> x < 80) \<and>
     (strength_bar_class x = band_colour Strong \<longleftrightarrow> 80 \<le> x)"
    unfolding strength_bar_class_band inj_band_colour by simp
  have form: "getPasswordStrengthColor x = band_colour b \<longleftrightarrow>
     getPasswordStrengthLabel x = band_label b"
    unfolding form_colour_band form_label_band inj_band_colour inj_band_label ..
  have "has_digit (js ''abcdefgh'') = False" "has_symbol (js ''abcdefgh'') = False"
    by (simp_all add: has_digit_def has_symbol_def js_def cu_def)
  then have ex: "w_passwordStrength (wizard_calculatePasswordStrength (js ''abcdefgh'') s) = 40"
    by (simp add: relaxed_strength relaxed_score_def weight_def js_def)
  have "strength_bar_class 40 = band_colour Medium"
    by (simp add: strength_bar_class_def)
  with sum bounds bands form ex show ?thesis
    by blast
qed

theorem C6_witness:
  "8 \<le> length (js ''abcdefgh'') \<and> \<not> has_digit (js ''abcdefgh'') \<and>
   \<not> has_symbol (js ''abcdefgh'') \<and>
   w_passwordStrength (wizard_calculatePasswordStrength (js ''abcdefgh'') initial_wizard) =
     40 + 0 + 0 \<and>
   (40 :: int) \<le> 40 \<and> (40 :: int) < 80 \<and>
   strength_bar_class 40 = js ''bg-yellow-500'' \<and>
   getPasswordStrengthColor 40 = js ''bg-yellow-500'' \<and>
   getPasswordStrengthLabel 40 = js ''Medium''"
proof -
  have "\<not> has_digit (js ''abcdefgh'')" "\<not> has_symbol (js ''abcdefgh'')"
    by (simp_all add: has_digit_def has_symbol_def js_def cu_def)
  moreover have "getPasswordStrengthColor 40 = js ''bg-yellow-500''"
    by (simp add: getPasswordStrengthColor_def)
  ultimately show ?thesis
    using C6_relaxed_score_and_bands [of "js ''abcdefgh''" initial_wizard 40 Medium]
    by (simp add: js_def)
qed

text \<open>
  The stored strength and flags follow the password as long as it is not empty: every
  event keeps them in sync.
\<close>

lemma handler_strength:
  "w_passwordStrength (wizard_handler ev s) = w_passwordStrength s"
  "passwordRequirements (wizard_handler ev s) = passwordRequirements s"
  by (cases ev;
    simp add: handleEmailSubmit_def handleOTPSubmit_def handlePasswordSubmit_def
      handleBack_def handleSocialLogin_def continue_def split: option.splits)+

lemma handler_password:
  "w_password (w_formData (wizard_handler ev s)) =
     (case ev of PasswordChange v \<Rightarrow> v | Continue \<Rightarrow> [] | _ \<Rightarrow> w_password (w_formData s))"
  by (cases ev)
    (simp_all add: handleEmailSubmit_def handleOTPSubmit_def handlePasswordSubmit_def
      handleBack_def handleSocialLogin_def continue_def split: option.splits)

lemma calculate_keeps_password:
  "w_formData (wizard_calculatePasswordStrength p s) = w_formData s"
  by (simp add: wizard_calculatePasswordStrength_def Let_def)

lemma strength_effect_fields:
  "w_password (w_formData (wizard_strength_effect s)) = w_password (w_formData s)"
  "w_password (w_formData s) \<noteq> [] \<Longrightarrow>
     w_passwordStrength (wizard_strength_effect s) = relaxed_score (w_password (w_formData s))"
  "w_password (w_formData s) \<noteq> [] \<Longrightarrow>
     passwordRequirements (wizard_strength_effect s) =
       relaxed_requirements (w_password (w_formData s))"
  "w_password (w_formData s) = [] \<Longrightarrow> wizard_strength_effect s = s"
  by (simp_all add: wizard_strength_effect_def falsy_def relaxed_strength relaxed_flags
      calculate_keeps_password)

lemma sync_fire: "strength_in_sync s \<Longrightarrow> strength_in_sync (wizard_fire s ev)"
  unfolding strength_in_sync_def wizard_fire_def wizard_rerender_def
  by (auto simp: handler_strength strength_effect_fields)

lemma sync_run: "strength_in_sync s \<Longrightarrow> strength_in_sync (wizard_run s evs)"
  by (induction evs arbitrary: s) (simp_all add: sync_fire)

lemma sync_initial: "strength_in_sync initial_wizard"
  by (simp add: strength_in_sync_def initial_wizard_def)

lemma fire_PasswordChange_nonempty:
  assumes "wizard_enabled s (PasswordChange v)" "v \<noteq> []" "strength_in_sync s"
  shows "w_password (w_formData (wizard_fire s (PasswordChange v))) = v \<and>
         w_passwordStrength (wizard_fire s (PasswordChange v)) = relaxed_score v \<and>
         passwordRequirements (wizard_fire s (PasswordChange v)) = relaxed_requirements v"
proof -
  have pw: "w_password (w_formData (wizard_fire s (PasswordChange v))) = v"
    using assms(1)
    by (simp add: wizard_fire_def wizard_rerender_def strength_effect_fields)
  from sync_fire [OF assms(3), of "PasswordChange v"] pw assms(2) show ?thesis
    by (simp add: strength_in_sync_def)
qed

lemma fire_PasswordChange_empty:
  "w_passwordStrength (wizard_fire s (PasswordChange [])) = w_passwordStrength s \<and>
   passwordRequirements (wizard_fire s (PasswordChange [])) = passwordRequirements s"
  by (simp add: wizard_fire_def wizard_rerender_def strength_effect_fields)

text \<open>
  Claim C1, as amended. In the wizard, in every state \<open>s\<close> reached by a sequence of events
  from the first render, whenever the password is not empty (the checklist and the
  strength bar are rendered for a non-empty password only) the stored strength and the
  three stored flags are the score and the flags computed from the current password
  alone. After the password field is set to a non-empty value \<open>v\<close> the stored strength is
  the score of \<open>v\<close>. Setting the password to the empty string recomputes nothing: the
  stored strength and flags keep the values they had. The score and the flags that
  \<open>calculatePasswordStrength\<close> stores depend on its argument only.
\<close>

theorem C1_strength_follows_nonempty_password:
  assumes "s = wizard_run initial_wizard evs"
  shows "(w_password (w_formData s) \<noteq> [] \<longrightarrow>
            w_passwordStrength s = relaxed_score (w_password (w_formData s)) \<and>
            passwordRequirements s = relaxed_requirements (w_password (w_formData s))) \<and>
         (checklist_shown s \<longrightarrow> w_password (w_formData s) \<noteq> []) \<and>
         (wizard_enabled s (PasswordChange v) \<and> v \<noteq> [] \<longrightarrow>
            w_password (w_formData (wizard_fire s (PasswordChange v))) = v \<and>
            w_passwordStrength (wizard_fire s (PasswordChange v)) = relaxed_score v \<and>
            passwordRequirements (wizard_fire s (PasswordChange v)) = relaxed_requirements v) \<and>
         w_passwordStrength (wizard_fire s (PasswordChange [])) = w_passwordStrength s \<and>
         passwordRequirements (wizard_fire s (PasswordChange [])) = passwordRequirements s \<and>
         w_passwordStrength (wizard_calculatePasswordStrength v t) = relaxed_score v \<and>
         passwordRequirements (wizard_calculatePasswordStrength v t) = relaxed_requirements v"
proof -
  from assms have sync: "strength_in_sync s"
    by (simp add: sync_run sync_initial)
  then have now: "w_password (w_formData s) \<noteq> [] \<longrightarrow>
      w_passwordStrength s = relaxed_score (w_password (w_formData s)) \<and>
      passwordRequirements s = relaxed_requirements (w_password (w_formData s))"
    by (simp add: strength_in_sync_def)
  from sync have typed: "wizard_enabled s (PasswordChange v) \<and> v \<noteq> [] \<longrightarrow>
      w_password (w_formData (wizard_fire s (PasswordChange v))) = v \<and>
      w_passwordStrength (wizard_fire s (PasswordChange v)) = relaxed_score v \<and>
      passwordRequirements (wizard_fire s (PasswordChange v)) = relaxed_requirements v"
    using fire_PasswordChange_nonempty [of s v] by blast
  have shown: "checklist_shown s \<longrightarrow> w_password (w_formData s) \<noteq> []"
    by (simp add: checklist_shown_def falsy_def)
  from now shown typed fire_PasswordChange_empty [of s] relaxed_strength [of v t]
    relaxed_flags [of v t]
  show ?thesis
    by blast
qed

lemma password_typed_state:
  "wizard_run initial_wizard password_typed =
     \<lparr>step = 3,
      w_formData = \<lparr>w_email = js ''a@b.com'', w_otp = js ''12345'',
                    w_password = js ''abcdefgh''\<rparr>,
      w_errors = \<lparr>email_err = None, otp_err = None, password_err = None\<rparr>,
      w_showPassword = False, w_isSubmitted = False, w_passwordStrength = 40,
      passwordRequirements = \<lparr>minLength = True, hasNumber = False, hasSymbol = False\<rparr>,
      w_toasts = [Toast (js ''Code Sent!'') (js ''We've sent a verification code to a@b.com'') False]\<rparr>"
  by code_simp

lemma relaxed_score_examples:
  "relaxed_score (js ''abcdefgh'') = 40"
  "relaxed_score (js ''abcdefg1'') = 70"
  "relaxed_score [] = 0"
  by code_simp+

text \<open>
  After \<open>abcdefgh\<close> has been typed at step 3 the stored strength is 40; replacing the
  password by \<open>abcdefg1\<close> stores 70.
\<close>

theorem C1_witness:
  "w_password (w_formData (wizard_run initial_wizard password_typed)) = js ''abcdefgh'' \<and>
   js ''abcdefgh'' \<noteq> [] \<and>
   w_passwordStrength (wizard_run initial_wizard password_typed) = 40 \<and>
   relaxed_score (js ''abcdefgh'') = 40 \<and>
   wizard_enabled (wizard_run initial_wizard password_typed) (PasswordChange (js ''abcdefg1'')) \<and>
   js ''abcdefg1'' \<noteq> [] \<and>
   w_passwordStrength
     (wizard_fire (wizard_run initial_wizard password_typed) (PasswordChange (js ''abcdefg1''))) =
     70 \<and>
   relaxed_score (js ''abcdefg1'') = 70"
proof -
  have en: "wizard_enabled (wizard_run initial_wizard password_typed)
      (PasswordChange (js ''abcdefg1''))"
    by (simp add: password_typed_state)
  have ne: "js ''abcdefg1'' \<noteq> []" "js ''abcdefgh'' \<noteq> []"
    by (simp_all add: js_def)
  have pw: "w_password (w_formData (wizard_run initial_wizard password_typed)) = js ''abcdefgh''"
    by (simp add: password_typed_state)
  from C1_strength_follows_nonempty_password [OF refl, of password_typed "js ''abcdefg1''"]
    en ne pw relaxed_score_examples
  show ?thesis
    by simp
qed

text \<open>
  Claim C1 as stated fails for the empty string: after \<open>abcdefgh\<close> has been typed at step
  3 and erased again, the password is empty but the stored strength is still 40 and the
  length flag is still set, while the score computed from the empty string is 0 and its
  length flag is not set.
\<close>

theorem C1_counterexample:
  "wizard_enabled (wizard_run initial_wizard password_typed) (PasswordChange []) \<and>
   w_password (w_formData
     (wizard_fire (wizard_run initial_wizard password_typed) (PasswordChange []))) = [] \<and>
   w_passwordStrength
     (wizard_fire (wizard_run initial_wizard password_typed) (PasswordChange [])) = 40 \<and>
   w_passwordStrength (wizard_calculatePasswordStrength [] initial_wizard) = 0 \<and>
   minLength (passwordRequirements
     (wizard_fire (wizard_run initial_wizard password_typed) (PasswordChange []))) \<and>
   \<not> minLength (passwordRequirements (wizard_calculatePasswordStrength [] initial_wizard))"
proof -
  have fired: "wizard_fire (wizard_run initial_wizard password_typed) (PasswordChange []) =
      (wizard_run initial_wizard password_typed)
        \<lparr>w_formData := \<lparr>w_email = js ''a@b.com'', w_otp = js ''12345'', w_password = []\<rparr>\<rparr>"
    by (simp add: password_typed_state wizard_fire_def wizard_rerender_def
        wizard_strength_effect_def falsy_def js_def)
  have zero: "w_passwordStrength (wizard_calculatePasswordStrength [] initial_wizard) = 0"
    "\<not> minLength (passwordRequirements (wizard_calculatePasswordStrength [] initial_wizard))"
    by code_simp+
  from fired zero show ?thesis
    by (simp add: password_typed_state)
qed

section \<open>Claims about the email validator\<close>

lemma match_here_Many:
  "match_here (Many a # ps) e s \<longleftrightarrow>
     (\<exists>xs ys. s = xs @ ys \<and> xs \<noteq> [] \<and> (\<forall>c\<in>set xs. atom_ok a c) \<and> match_here ps e ys)"
proof (induction s)
  case Nil
  then show ?case by simp
next
  case (Cons c cs)
  show ?case
  proof
    assume "match_here (Many a # ps) e (c # cs)"
    then have ok: "atom_ok a c" and more: "match_here (Many a # ps) e cs \<or> match_here ps e cs"
      by simp_all
    from more show "\<exists>xs ys. c # cs = xs @ ys \<and> xs \<noteq> [] \<and> (\<forall>c\<in>set xs. atom_ok a c) \<and>
        match_here ps e ys"
    proof
      assume "match_here (Many a # ps) e cs"
      with Cons.IH obtain xs ys where "cs = xs @ ys" "\<forall>c\<in>set xs. atom_ok a c"
        "match_here ps e ys"
        by blast
      with ok have "c # cs = (c # xs) @ ys \<and> c # xs \<noteq> [] \<and>
          (\<forall>d\<in>set (c # xs). atom_ok a d) \<and> match_here ps e ys"
        by simp
      then show ?thesis by blast
    next
      assume "match_here ps e cs"
      with ok have "c # cs = [c] @ cs \<and> [c] \<noteq> [] \<and> (\<forall>d\<in>set [c]. atom_ok a d) \<and>
          match_here ps e cs"
        by simp
      then show ?thesis by blast
    qed
  next
    assume "\<exists>xs ys. c # cs = xs @ ys \<and> xs \<noteq> [] \<and> (\<forall>c\<in>set xs. atom_ok a c) \<and>
        match_here ps e ys"
    then obtain xs ys where split: "c # cs = xs @ ys" and ne: "xs \<noteq> []"
      and ok: "\<forall>c\<in>set xs. atom_ok a c" and rest: "match_here ps e ys"
      by blast
    from ne obtain x xs' where xs: "xs = x # xs'"
      by (cases xs) auto
    with split have c: "c = x" and cs: "cs = xs' @ ys"
      by simp_all
    show "match_here (Many a # ps) e (c # cs)"
    proof (cases "xs' = []")
      case True
      with cs rest ok xs c show ?thesis by simp
    next
      case False
      with cs ok xs rest have "match_here (Many a # ps) e cs"
        using Cons.IH by auto
      with ok xs c show ?thesis by simp
    qed
  qed
qed

lemma match_here_Once:
  "match_here (Once a # ps) e s \<longleftrightarrow> (\<exists>c cs. s = c # cs \<and> atom_ok a c \<and> match_here ps e cs)"
  by (cases s) auto


lemma match_here_ManyI:
  "xs \<noteq> [] \<Longrightarrow> \<forall>c\<in>set xs. atom_ok a c \<Longrightarrow> match_here ps e ys \<Longrightarrow>
   match_here (Many a # ps) e (xs @ ys)"
  unfolding match_here_Many by blast

lemma emailRegex_split:
  "test emailRegex v \<longleftrightarrow>
     (\<exists>l d t. v = l @ cu CHR ''@'' # d @ cu CHR ''.'' # t \<and> l \<noteq> [] \<and> d \<noteq> [] \<and> t \<noteq> [] \<and>
        (\<forall>c\<in>set l \<union> set d \<union> set t. \<not> is_space c \<and> c \<noteq> cu CHR ''@''))"
  (is "?L \<longleftrightarrow> ?R")
proof
  assume ?L
  then obtain l r1 where v: "v = l @ r1" and l: "l \<noteq> []"
    "\<forall>c\<in>set l. \<not> is_space c \<and> c \<noteq> cu CHR ''@''"
    and m1: "match_here [Once (Lit (cu CHR ''@'')), Many (NCls [Esc_s, Chr (cu CHR ''@'')]),
        Once (Lit (cu CHR ''.'')), Many (NCls [Esc_s, Chr (cu CHR ''@'')])] True r1"
    unfolding test_def emailRegex_def by (auto simp: match_here_Many)
  from m1 obtain r2 where r1: "r1 = cu CHR ''@'' # r2"
    and m2: "match_here [Many (NCls [Esc_s, Chr (cu CHR ''@'')]),
        Once (Lit (cu CHR ''.'')), Many (NCls [Esc_s, Chr (cu CHR ''@'')])] True r2"
    by (auto simp: match_here_Once)
  from m2 obtain d r3 where r2: "r2 = d @ r3" and d: "d \<noteq> []"
    "\<forall>c\<in>set d. \<not> is_space c \<and> c \<noteq> cu CHR ''@''"
    and m3: "match_here [Once (Lit (cu CHR ''.'')), Many (NCls [Esc_s, Chr (cu CHR ''@'')])]
        True r3"
    by (auto simp: match_here_Many)
  from m3 obtain r4 where r3: "r3 = cu CHR ''.'' # r4"
    and m4: "match_here [Many (NCls [Esc_s, Chr (cu CHR ''@'')])] True r4"
    by (auto simp: match_here_Once)
  from m4 have t: "r4 \<noteq> []" "\<forall>c\<in>set r4. \<not> is_space c \<and> c \<noteq> cu CHR ''@''"
    by (auto simp: match_here_Many)
  from v r1 r2 r3 have "v = l @ cu CHR ''@'' # d @ cu CHR ''.'' # r4"
    by simp
  with l d t show ?R
    by blast
next
  assume ?R
  then obtain l d t where v: "v = l @ cu CHR ''@'' # d @ cu CHR ''.'' # t"
    and ne: "l \<noteq> []" "d \<noteq> []" "t \<noteq> []"
    and ok: "\<forall>c\<in>set l \<union> set d \<union> set t. \<not> is_space c \<and> c \<noteq> cu CHR ''@''"
    by blast
  from ne(3) ok have m4: "match_here [Many (NCls [Esc_s, Chr (cu CHR ''@'')])] True t"
    by (auto simp: match_here_Many)
  then have m3: "match_here [Once (Lit (cu CHR ''.'')), Many (NCls [Esc_s, Chr (cu CHR ''@'')])]
      True (cu CHR ''.'' # t)"
    by simp
  have okd: "\<forall>c\<in>set d. atom_ok (NCls [Esc_s, Chr (cu CHR ''@'')]) c"
    and okl: "\<forall>c\<in>set l. atom_ok (NCls [Esc_s, Chr (cu CHR ''@'')]) c"
    using ok by auto
  from ne(2) okd m3 have m2: "match_here [Many (NCls [Esc_s, Chr (cu CHR ''@'')]),
      Once (Lit (cu CHR ''.'')), Many (NCls [Esc_s, Chr (cu CHR ''@'')])] True
      (d @ cu CHR ''.'' # t)"
    by (rule match_here_ManyI)
  then have m1: "match_here [Once (Lit (cu CHR ''@'')), Many (NCls [Esc_s, Chr (cu CHR ''@'')]),
      Once (Lit (cu CHR ''.'')), Many (NCls [Esc_s, Chr (cu CHR ''@'')])] True
      (cu CHR ''@'' # d @ cu CHR ''.'' # t)"
    by simp
  from ne(1) okl m1 have "match_here
      [Many (NCls [Esc_s, Chr (cu CHR ''@'')]),
       Once (Lit (cu CHR ''@'')), Many (NCls [Esc_s, Chr (cu CHR ''@'')]),
       Once (Lit (cu CHR ''.'')), Many (NCls [Esc_s, Chr (cu CHR ''@'')])] True
      (l @ cu CHR ''@'' # d @ cu CHR ''.'' # t)"
    by (rule match_here_ManyI)
  with v have "match_here (body emailRegex) True v"
    by (simp add: emailRegex_def)
  then show ?L
    by (simp add: test_def emailRegex_def)
qed


lemma at_dot_facts:
  "\<not> is_space (cu CHR ''@'')" "\<not> is_space (cu CHR ''.'')" "cu CHR ''.'' \<noteq> cu CHR ''@''"
  by (simp_all add: is_space_def cu_def)

lemma split_shape:
  assumes v: "v = l @ cu CHR ''@'' # d @ cu CHR ''.'' # t"
    and ne: "l \<noteq> []" "d \<noteq> []" "t \<noteq> []"
    and ok: "\<forall>c\<in>set l \<union> set d \<union> set t. \<not> is_space c \<and> c \<noteq> cu CHR ''@''"
  shows "three_part_shape v"
proof -
  have nosp: "\<forall>c\<in>set v. \<not> is_space c"
    using ok at_dot_facts by (auto simp: v)
  from ok have free: "cu CHR ''@'' \<notin> set l" "cu CHR ''@'' \<notin> set d" "cu CHR ''@'' \<notin> set t"
    by auto
  have cnt: "count_list v (cu CHR ''@'') = 1"
    using free at_dot_facts by (simp add: v count_list_0_iff)
  have loc: "local_part v = l"
    using ok by (simp add: local_part_def v)
  have tail: "domain_tail v = d @ cu CHR ''.'' # t"
    using ok by (simp add: domain_tail_def v)
  from ne(2) obtain d0 d' where d: "d = d0 # d'"
    by (cases d) auto
  from ne(3) have "butlast (tl (domain_tail v)) = d' @ cu CHR ''.'' # butlast t"
    by (simp add: tail d butlast_append)
  then have dot: "cu CHR ''.'' \<in> set (butlast (tl (domain_tail v)))"
    by simp
  have noat: "cu CHR ''@'' \<notin> set (domain_tail v)"
    using ok at_dot_facts by (auto simp: tail)
  from nosp cnt loc ne(1) noat dot show ?thesis
    by (simp add: three_part_shape_def)
qed

lemma shape_split:
  assumes "three_part_shape v"
  shows "\<exists>l d t. v = l @ cu CHR ''@'' # d @ cu CHR ''.'' # t \<and> l \<noteq> [] \<and> d \<noteq> [] \<and> t \<noteq> [] \<and>
        (\<forall>c\<in>set l \<union> set d \<union> set t. \<not> is_space c \<and> c \<noteq> cu CHR ''@'')"
proof -
  let ?P = "\<lambda>c. c \<noteq> cu CHR ''@''"
  from assms have nosp: "\<forall>c\<in>set v. \<not> is_space c"
    and cnt: "count_list v (cu CHR ''@'') = 1"
    and loc: "local_part v \<noteq> []"
    and noat: "cu CHR ''@'' \<notin> set (domain_tail v)"
    and dot: "cu CHR ''.'' \<in> set (butlast (tl (domain_tail v)))"
    by (simp_all add: three_part_shape_def)
  from cnt have "count_list v (cu CHR ''@'') \<noteq> 0"
    by simp
  then have "cu CHR ''@'' \<in> set v"
    by (simp add: count_list_0_iff)
  then have "dropWhile ?P v \<noteq> []"
    by auto
  then have dw: "dropWhile ?P v = cu CHR ''@'' # domain_tail v"
    using hd_dropWhile [of ?P v] by (cases "dropWhile ?P v") (auto simp: domain_tail_def)
  have v: "v = local_part v @ cu CHR ''@'' # domain_tail v"
    using takeWhile_dropWhile_id [of ?P v] dw by (simp add: local_part_def)
  from dot have tlne: "tl (domain_tail v) \<noteq> []"
    by auto
  then obtain d0 where tail: "domain_tail v = d0 # tl (domain_tail v)"
    by (cases "domain_tail v") auto
  from dot obtain p q where bl: "butlast (tl (domain_tail v)) = p @ cu CHR ''.'' # q"
    by (auto simp: in_set_conv_decomp)
  with tlne have tl: "tl (domain_tail v) = p @ cu CHR ''.'' # q @ [last (tl (domain_tail v))]"
    using append_butlast_last_id [of "tl (domain_tail v)"] by simp
  define d where "d = d0 # p"
  define t where "t = q @ [last (tl (domain_tail v))]"
  have dt: "domain_tail v = d @ cu CHR ''.'' # t"
    using tail tl by (simp add: d_def t_def)
  have "\<forall>c\<in>set (local_part v). c \<noteq> cu CHR ''@''"
    by (auto simp: local_part_def dest: set_takeWhileD)
  moreover have "\<forall>c\<in>set d \<union> set t. c \<noteq> cu CHR ''@''"
    using noat dt by auto
  moreover have "\<forall>c\<in>set (local_part v) \<union> set d \<union> set t. \<not> is_space c"
    using nosp v dt
    by (metis Un_iff in_set_conv_decomp append_Cons append_assoc set_append)
  ultimately have ok: "\<forall>c\<in>set (local_part v) \<union> set d \<union> set t. \<not> is_space c \<and> c \<noteq> cu CHR ''@''"
    by blast
  have "v = local_part v @ cu CHR ''@'' # d @ cu CHR ''.'' # t"
    using v dt by simp
  moreover have "d \<noteq> []" "t \<noteq> []"
    by (simp_all add: d_def t_def)
  ultimately show ?thesis
    using loc ok by blast
qed

lemma emailRegex_three_part: "test emailRegex v \<longleftrightarrow> three_part_shape v"
  unfolding emailRegex_split using split_shape shape_split by blast

lemma dropWhile_all_iff:
  "(\<forall>c\<in>set (dropWhile P xs). P c) \<longleftrightarrow> (\<forall>c\<in>set xs. P c)"
proof
  assume all: "\<forall>c\<in>set (dropWhile P xs). P c"
  have "dropWhile P xs = []"
  proof (rule ccontr)
    assume ne: "dropWhile P xs \<noteq> []"
    then have "\<not> P (hd (dropWhile P xs))"
      by (rule hd_dropWhile)
    moreover from ne have "hd (dropWhile P xs) \<in> set (dropWhile P xs)"
      by (rule hd_in_set)
    ultimately show False
      using all by blast
  qed
  then show "\<forall>c\<in>set xs. P c"
    by (simp only: dropWhile_eq_Nil_conv)
next
  assume "\<forall>c\<in>set xs. P c"
  then show "\<forall>c\<in>set (dropWhile P xs). P c"
    by (blast dest: set_dropWhileD)
qed

lemma falsy_trim: "falsy (trim v) \<longleftrightarrow> (\<forall>c\<in>set v. is_space c)"
  by (simp add: falsy_def trim_def dropWhile_all_iff)

lemma three_part_not_blank: "three_part_shape v \<Longrightarrow> \<not> falsy (trim v)"
proof -
  assume shape: "three_part_shape v"
  then have "count_list v (cu CHR ''@'') \<noteq> 0" and nosp: "\<forall>c\<in>set v. \<not> is_space c"
    by (simp_all add: three_part_shape_def)
  then have "cu CHR ''@'' \<in> set v"
    by (simp add: count_list_0_iff)
  with nosp show ?thesis
    unfolding falsy_trim by blast
qed

lemma email_messages_distinct:
  "js ''Email is required'' \<noteq> js ''Please enter a valid email address''"
  by (simp add: js_def cu_def)

lemma set_trim: "c \<in> set (trim v) \<Longrightarrow> c \<in> set v"
proof -
  assume "c \<in> set (trim v)"
  then have "c \<in> set (dropWhile is_space (rev (dropWhile is_space v)))"
    by (simp add: trim_def)
  then have "c \<in> set (rev (dropWhile is_space v))"
    by (rule set_dropWhileD)
  then have "c \<in> set (dropWhile is_space v)"
    by simp
  then show "c \<in> set v"
    by (rule set_dropWhileD)
qed

lemma three_part_spec: "three_part_shape v \<Longrightarrow> spec_email_shape v"
proof -
  assume shape: "three_part_shape v"
  then have "cu CHR ''.'' \<in> set (butlast (tl (domain_tail v)))"
    by (simp add: three_part_shape_def)
  then have "cu CHR ''.'' \<in> set (tl (domain_tail v))"
    by (rule in_set_butlastD)
  then have "cu CHR ''.'' \<in> set (domain_tail v)"
    by (cases "domain_tail v") auto
  with shape show ?thesis
    by (auto simp: three_part_shape_def spec_email_shape_def dest: set_trim)
qed

text \<open>
  Claim C7, as amended. \<open>validateEmail\<close> returns Required (\<open>Email is required\<close>) exactly
  when the trimmed value is empty, that is when the value consists of white space only.
  Otherwise it returns InvalidFormat (\<open>Please enter a valid email address\<close>) exactly when
  the value as typed does not have the \<open>local@domain.tld\<close> shape with three non-empty
  parts: no white space anywhere in the value (leading and trailing included), exactly one
  \<open>@\<close>, a non-empty local part before it, no \<open>@\<close> in the tail after it, and a \<open>.\<close> after
  the \<open>@\<close> with at least one code unit between the \<open>@\<close> and that dot and at least one
  after it. The value is valid exactly when it has this shape, which is what the regular
  expression of the source decides; every such value also meets the four conditions of
  the specification. The wizard's copy of the validator is the same function. \<open>a@b.com\<close>
  is valid, \<open>not-an-email\<close> is InvalidFormat and the empty string is Required.
\<close>

theorem C7_validateEmail_shape:
  "(validateEmail v = Some (js ''Email is required'') \<longleftrightarrow> trim v = []) \<and>
   (trim v = [] \<longleftrightarrow> (\<forall>c\<in>set v. is_space c)) \<and>
   (validateEmail v = Some (js ''Please enter a valid email address'') \<longleftrightarrow>
      trim v \<noteq> [] \<and> \<not> three_part_shape v) \<and>
   (validateEmail v = None \<longleftrightarrow> three_part_shape v) \<and>
   test emailRegex v = three_part_shape v \<and>
   (three_part_shape v \<longrightarrow> spec_email_shape v) \<and>
   wizard_validateEmail v = validateEmail v \<and>
   validateEmail (js ''a@b.com'') = None \<and>
   validateEmail (js ''not-an-email'') = Some (js ''Please enter a valid email address'') \<and>
   validateEmail [] = Some (js ''Email is required'')"
proof -
  have req: "validateEmail v = Some (js ''Email is required'') \<longleftrightarrow> trim v = []"
    using email_messages_distinct by (auto simp: validateEmail_def falsy_def)
  have blank: "trim v = [] \<longleftrightarrow> (\<forall>c\<in>set v. is_space c)"
    using falsy_trim [of v] by (simp add: falsy_def)
  have inv: "validateEmail v = Some (js ''Please enter a valid email address'') \<longleftrightarrow>
      trim v \<noteq> [] \<and> \<not> three_part_shape v"
    using email_messages_distinct by (auto simp: validateEmail_def falsy_def emailRegex_three_part)
  have valid: "validateEmail v = None \<longleftrightarrow> three_part_shape v"
    using three_part_not_blank [of v] by (auto simp: validateEmail_def emailRegex_three_part)
  have same: "wizard_validateEmail v = validateEmail v"
    by (simp add: wizard_validateEmail_def validateEmail_def)
  have ex: "validateEmail (js ''a@b.com'') = None"
    "validateEmail (js ''not-an-email'') = Some (js ''Please enter a valid email address'')"
    "validateEmail [] = Some (js ''Email is required'')"
    by code_simp+
  have narrower: "three_part_shape v \<longrightarrow> spec_email_shape v"
    using three_part_spec [of v] by blast
  from req blank inv valid emailRegex_three_part [of v] narrower same ex show ?thesis
    by - (intro conjI, assumption+)
qed

text \<open>
  \<open>a@b.com\<close> has the shape and is valid. \<open>a@.com\<close> (no domain before the dot) and
  \<open> a@b.com\<close> (a leading blank: the pattern is tested on the value as typed) are not
  empty after trimming, do not have the shape and are InvalidFormat. Two blanks are
  Required.
\<close>

lemma shape_examples:
  "three_part_shape (js ''a@b.com'')" "\<not> three_part_shape (js ''a@.com'')"
  "\<not> three_part_shape (js '' a@b.com'')" "trim (js ''a@.com'') \<noteq> []"
  "trim (js '' a@b.com'') \<noteq> []" "trim (js ''  '') = []"
  by code_simp+

theorem C7_witness:
  "three_part_shape (js ''a@b.com'') \<and> validateEmail (js ''a@b.com'') = None \<and>
   spec_email_shape (js ''a@b.com'') \<and>
   trim (js ''a@.com'') \<noteq> [] \<and> \<not> three_part_shape (js ''a@.com'') \<and>
   validateEmail (js ''a@.com'') = Some (js ''Please enter a valid email address'') \<and>
   trim (js '' a@b.com'') \<noteq> [] \<and> \<not> three_part_shape (js '' a@b.com'') \<and>
   validateEmail (js '' a@b.com'') = Some (js ''Please enter a valid email address'') \<and>
   trim (js ''  '') = [] \<and> validateEmail (js ''  '') = Some (js ''Email is required'')"
proof -
  have a: "validateEmail (js ''a@b.com'') = None"
    using C7_validateEmail_shape [of "js ''a@b.com''"] shape_examples(1) by simp
  have b: "validateEmail (js ''a@.com'') = Some (js ''Please enter a valid email address'')"
    using C7_validateEmail_shape [of "js ''a@.com''"] shape_examples(2,4) by simp
  have c: "validateEmail (js '' a@b.com'') = Some (js ''Please enter a valid email address'')"
    using C7_validateEmail_shape [of "js '' a@b.com''"] shape_examples(3,5) by simp
  have d: "validateEmail (js ''  '') = Some (js ''Email is required'')"
    using C7_validateEmail_shape [of "js ''  ''"] shape_examples(6) by simp
  have e: "spec_email_shape (js ''a@b.com'')"
    using C7_validateEmail_shape [of "js ''a@b.com''"] shape_examples(1) by simp
  from a b c d e shape_examples show ?thesis
    by simp
qed

lemma spec_shape_examples:
  "spec_email_shape (js ''a@.com'')" "spec_email_shape (js ''@b.com'')"
  "spec_email_shape (js ''a@b.'')" "spec_email_shape (js '' a@b.com'')"
  "trim (js ''a@.com'') \<noteq> []" "trim (js ''@b.com'') \<noteq> []"
  "trim (js ''a@b.'') \<noteq> []" "trim (js '' a@b.com'') \<noteq> []"
  by code_simp+

text \<open>
  Claim C7 as stated fails: \<open>a@.com\<close> (nothing between the \<open>@\<close> and the dot), \<open>@b.com\<close>
  (no local part), \<open>a@b.\<close> (nothing after the dot) and \<open> a@b.com\<close> (a leading blank,
  which is not internal) are not empty after trimming and meet the four conditions of the
  specification: no internal white space, exactly one \<open>@\<close>, a \<open>.\<close> after the \<open>@\<close>, no \<open>@\<close>
  in the domain tail. The validator returns InvalidFormat for each of them.
\<close>

theorem C7_counterexample:
  "spec_email_shape (js ''a@.com'') \<and> trim (js ''a@.com'') \<noteq> [] \<and>
   validateEmail (js ''a@.com'') = Some (js ''Please enter a valid email address'') \<and>
   spec_email_shape (js ''@b.com'') \<and> trim (js ''@b.com'') \<noteq> [] \<and>
   validateEmail (js ''@b.com'') = Some (js ''Please enter a valid email address'') \<and>
   spec_email_shape (js ''a@b.'') \<and> trim (js ''a@b.'') \<noteq> [] \<and>
   validateEmail (js ''a@b.'') = Some (js ''Please enter a valid email address'') \<and>
   spec_email_shape (js '' a@b.com'') \<and> trim (js '' a@b.com'') \<noteq> [] \<and>
   validateEmail (js '' a@b.com'') = Some (js ''Please enter a valid email address'')"
proof -
  have "validateEmail (js ''a@.com'') = Some (js ''Please enter a valid email address'')"
    "validateEmail (js ''@b.com'') = Some (js ''Please enter a valid email address'')"
    "validateEmail (js ''a@b.'') = Some (js ''Please enter a valid email address'')"
    "validateEmail (js '' a@b.com'') = Some (js ''Please enter a valid email address'')"
    by code_simp+
  with spec_shape_examples show ?thesis
    by simp
qed


end
